theory Spec2Isabelle
  imports Complex_Main
begin

section \<open>The data model of GameEngine.tsx\<close>

text \<open>
  The engine is a React component. Its state lives in \<open>useState\<close> cells and
  \<open>useRef\<close> cells; the model collects them in one record and passes it
  explicitly. JavaScript numbers are modelled by exact numbers: counters,
  scores and health as \<open>int\<close>, positions and the jump arc as \<open>rat\<close>,
  identifiers (\<open>ref.current++\<close> from 0) as \<open>nat\<close>. The rounding of
  doubles (the decrements 0.9, 0.02, 0.05, 0.03, 0.1 and the random
  fractions) is not modelled.
\<close>

datatype GameState = Start | Playing | Paused | GameOver

datatype PowerUpType = Shield | Speed | Magnet | Health

datatype ObstacleType = Barrier | Train | Tunnel | Spike | Laser

datatype CoinType = Normal | Gold | Diamond

record Player =
  lane :: int
  p_x :: rat
  p_y :: rat
  isJumping :: bool
  isSliding :: bool
  jumpHeight :: rat
  jumpVelocity :: rat
  health :: int
  maxHealth :: int
  isInvulnerable :: bool
  powerUpActive :: bool
  powerUpType :: "PowerUpType option"
  powerUpTimer :: int

record Obstacle =
  ob_id :: nat
  ob_lane :: int
  ob_x :: rat
  ob_y :: rat
  ob_width :: rat
  ob_height :: rat
  ob_type :: ObstacleType
  ob_rotation :: rat
  ob_animationFrame :: int

record Coin =
  coin_id :: nat
  coin_lane :: int
  coin_x :: rat
  coin_y :: rat
  coin_collected :: bool
  coin_value :: int
  coin_type :: CoinType
  coin_rotation :: rat
  coin_animationFrame :: int

record PowerUp =
  pu_id :: nat
  pu_lane :: int
  pu_x :: rat
  pu_y :: rat
  pu_type :: PowerUpType
  pu_collected :: bool
  pu_rotation :: rat
  pu_animationFrame :: int

record Particle =
  pt_id :: nat
  pt_x :: rat
  pt_y :: rat
  pt_vx :: rat
  pt_vy :: rat
  pt_life :: rat
  pt_maxLife :: rat
  pt_color :: string
  pt_size :: rat

text \<open>
  The component state. \<open>randCalls\<close> counts the calls of \<open>Math.random\<close> made
  so far; \<open>slideTimers\<close> and \<open>invulnTimers\<close> count the \<open>setTimeout\<close>
  callbacks that are scheduled and have not fired yet.
\<close>

record Engine =
  gameState :: GameState
  score :: int
  coins :: int
  highScore :: int
  level :: int
  player :: Player
  obstacles :: "Obstacle list"
  gameCoins :: "Coin list"
  powerUps :: "PowerUp list"
  particles :: "Particle list"
  obstacleIdRef :: nat
  coinIdRef :: nat
  powerUpIdRef :: nat
  particleIdRef :: nat
  distanceRef :: int
  frameCountRef :: int
  randCalls :: nat
  slideTimers :: nat
  invulnTimers :: nat

record Rect =
  r_x :: rat
  r_y :: rat
  r_width :: rat
  r_height :: rat

subsection \<open>Constants\<close>

definition GAME_WIDTH :: rat where "GAME_WIDTH = 900"
definition GAME_HEIGHT :: rat where "GAME_HEIGHT = 600"
definition LANE_WIDTH :: rat where "LANE_WIDTH = GAME_WIDTH / 3"
definition PLAYER_WIDTH :: rat where "PLAYER_WIDTH = 40"
definition PLAYER_HEIGHT :: rat where "PLAYER_HEIGHT = 60"
definition GAME_SPEED :: int where "GAME_SPEED = 6"
definition JUMP_POWER :: rat where "JUMP_POWER = 18"
definition GRAVITY :: rat where "GRAVITY = 9 / 10"
definition MAX_JUMP_HEIGHT :: rat where "MAX_JUMP_HEIGHT = 120"

subsection \<open>Math.random\<close>

text \<open>
  \<open>Math.random()\<close> returns a double in \<open>[0, 1)\<close>. The source of randomness is
  a tape of integers; the \<open>i\<close>-th call returns the 53-bit fraction made from
  the \<open>i\<close>-th cell, so every returned value lies in \<open>[0, 1)\<close>.
\<close>

type_synonym tape = "nat \<Rightarrow> int"

definition Math_random :: "tape \<Rightarrow> nat \<Rightarrow> rat" where
  "Math_random rnd i = of_int (rnd i mod 2 ^ 53) / 2 ^ 53"

definition Math_floor :: "rat \<Rightarrow> int" where
  "Math_floor r = \<lfloor>r\<rfloor>"

section \<open>Initial state and startGame\<close>

definition initialPlayer :: Player where
  "initialPlayer =
     \<lparr> lane = 1,
       p_x = LANE_WIDTH + LANE_WIDTH / 2 - PLAYER_WIDTH / 2,
       p_y = GAME_HEIGHT - 100,
       isJumping = False,
       isSliding = False,
       jumpHeight = 0,
       jumpVelocity = 0,
       health = 100,
       maxHealth = 100,
       isInvulnerable = False,
       powerUpActive = False,
       powerUpType = None,
       powerUpTimer = 0 \<rparr>"

definition initialEngine :: Engine where
  "initialEngine =
     \<lparr> gameState = Start, score = 0, coins = 0, highScore = 0, level = 1,
       player = initialPlayer,
       obstacles = [], gameCoins = [], powerUps = [], particles = [],
       obstacleIdRef = 0, coinIdRef = 0, powerUpIdRef = 0, particleIdRef = 0,
       distanceRef = 0, frameCountRef = 0,
       randCalls = 0, slideTimers = 0, invulnTimers = 0 \<rparr>"

definition startGame :: "Engine \<Rightarrow> Engine" where
  "startGame g =
     g\<lparr> gameState := Playing, score := 0, coins := 0, level := 1,
         distanceRef := 0, frameCountRef := 0,
         obstacles := [], gameCoins := [], powerUps := [], particles := [],
         player := initialPlayer \<rparr>"

definition resetGame :: "Engine \<Rightarrow> Engine" where
  "resetGame g = g\<lparr> gameState := Start \<rparr>"

definition togglePause :: "Engine \<Rightarrow> Engine" where
  "togglePause g =
     (if gameState g = Playing then g\<lparr> gameState := Paused \<rparr>
      else if gameState g = Paused then g\<lparr> gameState := Playing \<rparr>
      else g)"

section \<open>Particles and spawning\<close>

text \<open>
  \<open>createParticle(x, y, color, count)\<close>: the loop builds \<open>newParticles\<close>,
  taking the identifier from \<open>particleIdRef.current++\<close> and three random
  numbers per particle, in the order of the object literal (\<open>vx\<close>, \<open>vy\<close>,
  \<open>size\<close>); then one \<open>setParticles\<close> appends them. The loop is modelled by
  recursion on the number of particles still to make, with the next identifier
  and the number of \<open>Math.random\<close> calls made so far as arguments.
\<close>

fun newParticles :: "tape \<Rightarrow> rat \<Rightarrow> rat \<Rightarrow> string \<Rightarrow> nat \<Rightarrow> nat \<Rightarrow> nat \<Rightarrow> Particle list" where
  "newParticles rnd x y color 0 idRef calls = []"
| "newParticles rnd x y color (Suc n) idRef calls =
     \<lparr> pt_id = idRef,
       pt_x = x,
       pt_y = y,
       pt_vx = (Math_random rnd calls - 1 / 2) * 8,
       pt_vy = (Math_random rnd (calls + 1) - 1 / 2) * 8,
       pt_life = 1,
       pt_maxLife = 1,
       pt_color = color,
       pt_size = Math_random rnd (calls + 2) * 3 + 2 \<rparr>
     # newParticles rnd x y color n (idRef + 1) (calls + 3)"

definition createParticle :: "tape \<Rightarrow> rat \<Rightarrow> rat \<Rightarrow> string \<Rightarrow> nat \<Rightarrow> Engine \<Rightarrow> Engine" where
  "createParticle rnd x y color count g =
     g\<lparr> particles :=
           particles g @ newParticles rnd x y color count (particleIdRef g) (randCalls g),
         particleIdRef := particleIdRef g + count,
         randCalls := randCalls g + 3 * count \<rparr>"

definition obstacleTypes :: "ObstacleType list" where
  "obstacleTypes = [Barrier, Train, Tunnel, Spike, Laser]"

definition coinTypes :: "CoinType list" where
  "coinTypes = [Normal, Gold, Diamond]"

definition powerUpTypes :: "PowerUpType list" where
  "powerUpTypes = [Shield, Speed, Magnet, Health]"

text \<open>
  The three spawn functions: the entity that the source builds in a local
  constant, and the append with \<open>idRef.current++\<close>. Each spawn calls
  \<open>Math.random\<close> twice, first for the lane and then for the kind.
\<close>

definition newObstacle :: "tape \<Rightarrow> Engine \<Rightarrow> Obstacle" where
  "newObstacle rnd g =
     (let l = Math_floor (Math_random rnd (randCalls g) * 3);
          t = obstacleTypes !
                nat (Math_floor (Math_random rnd (randCalls g + 1) * of_nat (length obstacleTypes)));
          w = (if t = Spike then 40 else if t = Laser then 80 else 60);
          h = (if t = Spike then 60 else if t = Laser then 20 else 80)
      in \<lparr> ob_id = obstacleIdRef g,
           ob_lane = l,
           ob_x = of_int l * LANE_WIDTH + LANE_WIDTH / 2 - w / 2,
           ob_y = 50,
           ob_width = w,
           ob_height = h,
           ob_type = t,
           ob_rotation = 0,
           ob_animationFrame = 0 \<rparr>)"

definition spawnObstacle :: "tape \<Rightarrow> Engine \<Rightarrow> Engine" where
  "spawnObstacle rnd g =
     g\<lparr> obstacles := obstacles g @ [newObstacle rnd g],
         obstacleIdRef := obstacleIdRef g + 1,
         randCalls := randCalls g + 2 \<rparr>"

definition newCoin :: "tape \<Rightarrow> Engine \<Rightarrow> Coin" where
  "newCoin rnd g =
     (let l = Math_floor (Math_random rnd (randCalls g) * 3);
          t = coinTypes !
                nat (Math_floor (Math_random rnd (randCalls g + 1) * of_nat (length coinTypes)))
      in \<lparr> coin_id = coinIdRef g,
           coin_lane = l,
           coin_x = of_int l * LANE_WIDTH + LANE_WIDTH / 2 - 15,
           coin_y = 30,
           coin_collected = False,
           coin_value = (if t = Normal then 1 else if t = Gold then 5 else 10),
           coin_type = t,
           coin_rotation = 0,
           coin_animationFrame = 0 \<rparr>)"

definition spawnCoin :: "tape \<Rightarrow> Engine \<Rightarrow> Engine" where
  "spawnCoin rnd g =
     g\<lparr> gameCoins := gameCoins g @ [newCoin rnd g],
         coinIdRef := coinIdRef g + 1,
         randCalls := randCalls g + 2 \<rparr>"

definition newPowerUp :: "tape \<Rightarrow> Engine \<Rightarrow> PowerUp" where
  "newPowerUp rnd g =
     (let l = Math_floor (Math_random rnd (randCalls g) * 3);
          t = powerUpTypes !
                nat (Math_floor (Math_random rnd (randCalls g + 1) * of_nat (length powerUpTypes)))
      in \<lparr> pu_id = powerUpIdRef g,
           pu_lane = l,
           pu_x = of_int l * LANE_WIDTH + LANE_WIDTH / 2 - 20,
           pu_y = 30,
           pu_type = t,
           pu_collected = False,
           pu_rotation = 0,
           pu_animationFrame = 0 \<rparr>)"

definition spawnPowerUp :: "tape \<Rightarrow> Engine \<Rightarrow> Engine" where
  "spawnPowerUp rnd g =
     g\<lparr> powerUps := powerUps g @ [newPowerUp rnd g],
         powerUpIdRef := powerUpIdRef g + 1,
         randCalls := randCalls g + 2 \<rparr>"

section \<open>Collision resolution\<close>

text \<open>
  \<open>checkCollisions\<close> reads \<open>player\<close>, \<open>obstacles\<close>, \<open>score\<close> and
  \<open>highScore\<close> from the closure of the last render, so the model passes that
  snapshot next to the state being updated. The state updaters queued with
  \<open>setPlayer(prev => ...)\<close> are applied to the running state, in the order
  in which they were queued, and each updater runs once (also the two that
  call \<open>setCoins\<close>, \<open>setPlayer\<close> and \<open>createParticle\<close> from inside).
\<close>

definition playerRect :: "Player \<Rightarrow> Rect" where
  "playerRect p =
     \<lparr> r_x = p_x p,
       r_y = p_y p - jumpHeight p + (if isSliding p then 20 else 0),
       r_width = PLAYER_WIDTH,
       r_height = (if isSliding p then PLAYER_HEIGHT * (6 / 10) else PLAYER_HEIGHT) \<rparr>"

definition hitsObstacle :: "Rect \<Rightarrow> Obstacle \<Rightarrow> bool" where
  "hitsObstacle r obstacle \<longleftrightarrow>
     ob_x obstacle < r_x r + r_width r \<and>
     ob_x obstacle + ob_width obstacle > r_x r \<and>
     ob_y obstacle < r_y r + r_height r \<and>
     ob_y obstacle + ob_height obstacle > r_y r"

definition hitsCoin :: "Rect \<Rightarrow> Coin \<Rightarrow> bool" where
  "hitsCoin r coin \<longleftrightarrow>
     coin_x coin < r_x r + r_width r \<and>
     coin_x coin + 30 > r_x r \<and>
     coin_y coin < r_y r + r_height r \<and>
     coin_y coin + 30 > r_y r"

definition hitsPowerUp :: "Rect \<Rightarrow> PowerUp \<Rightarrow> bool" where
  "hitsPowerUp r powerUp \<longleftrightarrow>
     pu_x powerUp < r_x r + PLAYER_WIDTH \<and>
     pu_x powerUp + 40 > r_x r \<and>
     pu_y powerUp < r_y r + r_height r \<and>
     pu_y powerUp + 40 > r_y r"

definition takeDamage :: "Player \<Rightarrow> Player" where
  "takeDamage prev = prev\<lparr> health := max 0 (health prev - 25), isInvulnerable := True \<rparr>"

definition applyPowerUp :: "PowerUp \<Rightarrow> Player \<Rightarrow> Player" where
  "applyPowerUp powerUp prev =
     prev\<lparr> powerUpActive := True,
            powerUpType := Some (pu_type powerUp),
            powerUpTimer := 10000,
            health := (if pu_type powerUp = Health
                       then min (maxHealth prev) (health prev + 25)
                       else health prev) \<rparr>"

text \<open>
  What happens at the first overlapping obstacle; \<open>s\<close> is the snapshot of the
  last render, \<open>g\<close> the state being updated. Every branch of the source ends
  in \<open>return\<close>.
\<close>

definition obstacleOutcome :: "tape \<Rightarrow> Engine \<Rightarrow> Engine \<Rightarrow> Engine" where
  "obstacleOutcome rnd s g =
     (if powerUpActive (player s) \<and> powerUpType (player s) = Some Shield then
        createParticle rnd (p_x (player s) + PLAYER_WIDTH / 2) (p_y (player s))
          ''hsl(195, 100%, 55%)'' 10 g
      else
        let g1 = g\<lparr> player := takeDamage (player g) \<rparr>;
            g2 = createParticle rnd (p_x (player s) + PLAYER_WIDTH / 2) (p_y (player s))
                   ''hsl(0, 100%, 50%)'' 15 g1
        in if health (player s) \<le> 25 then
             g2\<lparr> gameState := GameOver,
                 highScore := (if score s > highScore s then score s else highScore g2) \<rparr>
           else
             g2\<lparr> invulnTimers := invulnTimers g2 + 1 \<rparr>)"

text \<open>
  The loop over the obstacles: \<open>Some\<close> is the state at the \<open>return\<close> taken
  at the first overlapping obstacle, \<open>None\<close> means that the loop ran to its end.
\<close>

fun checkObstacles :: "tape \<Rightarrow> Engine \<Rightarrow> Obstacle list \<Rightarrow> Engine \<Rightarrow> Engine option" where
  "checkObstacles rnd s [] g = None"
| "checkObstacles rnd s (obstacle # rest) g =
     (if hitsObstacle (playerRect (player s)) obstacle
      then Some (obstacleOutcome rnd s g)
      else checkObstacles rnd s rest g)"

text \<open>
  \<open>setGameCoins(prev => prev.map(...))\<close>: the map runs over the coins from
  left to right; a collected coin adds its value and emits a burst.
\<close>

fun collectCoins :: "tape \<Rightarrow> Rect \<Rightarrow> Coin list \<Rightarrow> Engine \<Rightarrow> Coin list \<times> Engine" where
  "collectCoins rnd r [] g = ([], g)"
| "collectCoins rnd r (coin # rest) g =
     (if \<not> coin_collected coin \<and> hitsCoin r coin then
        let g1 = g\<lparr> coins := coins g + coin_value coin \<rparr>;
            g2 = createParticle rnd (coin_x coin + 15) (coin_y coin + 15)
                   ''hsl(45, 100%, 60%)'' 8 g1;
            (rest', g3) = collectCoins rnd r rest g2
        in (coin\<lparr> coin_collected := True \<rparr> # rest', g3)
      else
        let (rest', g3) = collectCoins rnd r rest g
        in (coin # rest', g3))"

fun collectPowerUps :: "tape \<Rightarrow> Rect \<Rightarrow> PowerUp list \<Rightarrow> Engine \<Rightarrow> PowerUp list \<times> Engine" where
  "collectPowerUps rnd r [] g = ([], g)"
| "collectPowerUps rnd r (powerUp # rest) g =
     (if \<not> pu_collected powerUp \<and> hitsPowerUp r powerUp then
        let g1 = g\<lparr> player := applyPowerUp powerUp (player g) \<rparr>;
            g2 = createParticle rnd (pu_x powerUp + 20) (pu_y powerUp + 20)
                   ''hsl(195, 100%, 55%)'' 12 g1;
            (rest', g3) = collectPowerUps rnd r rest g2
        in (powerUp\<lparr> pu_collected := True \<rparr> # rest', g3)
      else
        let (rest', g3) = collectPowerUps rnd r rest g
        in (powerUp # rest', g3))"

definition checkCoinCollections :: "tape \<Rightarrow> Rect \<Rightarrow> Engine \<Rightarrow> Engine" where
  "checkCoinCollections rnd r g =
     (let (cs, g1) = collectCoins rnd r (gameCoins g) g in g1\<lparr> gameCoins := cs \<rparr>)"

definition checkPowerUpCollections :: "tape \<Rightarrow> Rect \<Rightarrow> Engine \<Rightarrow> Engine" where
  "checkPowerUpCollections rnd r g =
     (let (ps, g1) = collectPowerUps rnd r (powerUps g) g in g1\<lparr> powerUps := ps \<rparr>)"

definition checkCollisions :: "tape \<Rightarrow> Engine \<Rightarrow> Engine \<Rightarrow> Engine" where
  "checkCollisions rnd s g =
     (if isInvulnerable (player s) then g
      else
        case checkObstacles rnd s (obstacles s) g of
          Some g' \<Rightarrow> g'
        | None \<Rightarrow>
            let r = playerRect (player s)
            in checkPowerUpCollections rnd r (checkCoinCollections rnd r g))"

section \<open>The game loop\<close>

definition updatePhysics :: "Player \<Rightarrow> Player" where
  "updatePhysics prev =
     (let p1 =
            (if isJumping prev then
               let v = jumpVelocity prev + JUMP_POWER;
                   h = jumpHeight prev + v
               in if h \<ge> MAX_JUMP_HEIGHT
                  then prev\<lparr> jumpVelocity := 0, jumpHeight := h, isJumping := False \<rparr>
                  else prev\<lparr> jumpVelocity := v, jumpHeight := h \<rparr>
             else if jumpHeight prev > 0 then
               let h = jumpHeight prev - GRAVITY
               in if h \<le> 0
                  then prev\<lparr> jumpHeight := 0, jumpVelocity := 0 \<rparr>
                  else prev\<lparr> jumpHeight := h \<rparr>
             else prev)
      in if powerUpActive p1 \<and> powerUpTimer p1 > 0 then
           let t = powerUpTimer p1 - 16
           in if t \<le> 0
              then p1\<lparr> powerUpTimer := t, powerUpActive := False, powerUpType := None \<rparr>
              else p1\<lparr> powerUpTimer := t \<rparr>
         else p1)"

definition updateObstacles :: "Obstacle list \<Rightarrow> Obstacle list" where
  "updateObstacles prev =
     filter (\<lambda>obstacle. ob_y obstacle < GAME_HEIGHT + 100)
       (map (\<lambda>obstacle. obstacle\<lparr> ob_y := ob_y obstacle + of_int GAME_SPEED,
                                  ob_rotation := ob_rotation obstacle + 2 / 100,
                                  ob_animationFrame := ob_animationFrame obstacle + 1 \<rparr>) prev)"

definition updateCoins :: "Coin list \<Rightarrow> Coin list" where
  "updateCoins prev =
     filter (\<lambda>coin. coin_y coin < GAME_HEIGHT + 50)
       (map (\<lambda>coin. coin\<lparr> coin_y := coin_y coin + of_int GAME_SPEED,
                          coin_rotation := coin_rotation coin + 5 / 100,
                          coin_animationFrame := coin_animationFrame coin + 1 \<rparr>) prev)"

definition updatePowerUps :: "PowerUp list \<Rightarrow> PowerUp list" where
  "updatePowerUps prev =
     filter (\<lambda>powerUp. pu_y powerUp < GAME_HEIGHT + 50)
       (map (\<lambda>powerUp. powerUp\<lparr> pu_y := pu_y powerUp + of_int GAME_SPEED,
                                pu_rotation := pu_rotation powerUp + 3 / 100,
                                pu_animationFrame := pu_animationFrame powerUp + 1 \<rparr>) prev)"

definition updateParticles :: "Particle list \<Rightarrow> Particle list" where
  "updateParticles prev =
     filter (\<lambda>particle. pt_life particle > 0)
       (map (\<lambda>particle. particle\<lparr> pt_x := pt_x particle + pt_vx particle,
                                  pt_y := pt_y particle + pt_vy particle,
                                  pt_life := pt_life particle - 2 / 100,
                                  pt_vy := pt_vy particle + 1 / 10 \<rparr>) prev)"

text \<open>
  One animation frame, in the order of the source: \<open>frameCountRef\<close> and the
  five queued updates of the player and the entities, the spawns, the score
  and the level, the collisions. The source tests \<open>gameState\<close> and \<open>level\<close>
  of the last render; every \<open>setX(prev => ...)\<close> is applied in queue order.
  Nothing between the three spawn tests writes \<open>distanceRef.current\<close>, so
  they read the same value \<open>d\<close>.
\<close>

definition updateEntities :: "Engine \<Rightarrow> Engine" where
  "updateEntities s =
     s\<lparr> frameCountRef := frameCountRef s + 1,
         player := updatePhysics (player s),
         obstacles := updateObstacles (obstacles s),
         gameCoins := updateCoins (gameCoins s),
         powerUps := updatePowerUps (powerUps s),
         particles := updateParticles (particles s) \<rparr>"

definition spawnEntities :: "tape \<Rightarrow> Engine \<Rightarrow> Engine" where
  "spawnEntities rnd g =
     (let d = distanceRef g + GAME_SPEED;
          g2 = g\<lparr> distanceRef := d \<rparr>;
          g3 = (if d mod 100 = 0 then spawnObstacle rnd g2 else g2);
          g4 = (if d mod 150 = 0 then spawnCoin rnd g3 else g3)
      in if d mod 300 = 0 then spawnPowerUp rnd g4 else g4)"

definition updateScore :: "Engine \<Rightarrow> Engine \<Rightarrow> Engine" where
  "updateScore s g =
     (let newScore = Math_floor (of_int (distanceRef g) / 10);
          g6 = g\<lparr> score := newScore \<rparr>;
          newLevel = Math_floor (of_int newScore / 100) + 1
      in if newLevel \<noteq> level s then g6\<lparr> level := newLevel \<rparr> else g6)"

definition gameLoop :: "tape \<Rightarrow> Engine \<Rightarrow> Engine" where
  "gameLoop rnd s =
     (if gameState s \<noteq> Playing then s
      else checkCollisions rnd s (updateScore s (spawnEntities rnd (updateEntities s))))"

section \<open>Input and timers\<close>

definition laneX :: "int \<Rightarrow> rat" where
  "laneX l = of_int l * LANE_WIDTH + LANE_WIDTH / 2 - PLAYER_WIDTH / 2"

definition leftKeys :: "string list" where
  "leftKeys = [''ArrowLeft'', ''a'', ''A'']"

definition rightKeys :: "string list" where
  "rightKeys = [''ArrowRight'', ''d'', ''D'']"

definition jumpKeys :: "string list" where
  "jumpKeys = ['' '', ''ArrowUp'', ''w'', ''W'']"

definition slideKeys :: "string list" where
  "slideKeys = [''ArrowDown'', ''s'', ''S'']"

definition pauseKeys :: "string list" where
  "pauseKeys = [''p'', ''P'', ''Escape'']"

definition handleKeyPress :: "string \<Rightarrow> Engine \<Rightarrow> Engine" where
  "handleKeyPress key g =
     (if gameState g = Start then (if key = '' '' then startGame g else g)
      else if gameState g = GameOver then (if key = '' '' then startGame g else g)
      else if gameState g = Paused then
        (if key = '' '' then g\<lparr> gameState := Playing \<rparr> else g)
      else
        let prev = player g in
        if key \<in> set leftKeys then
          (if lane prev > 0
           then g\<lparr> player := prev\<lparr> lane := lane prev - 1, p_x := laneX (lane prev - 1) \<rparr> \<rparr>
           else g)
        else if key \<in> set rightKeys then
          (if lane prev < 2
           then g\<lparr> player := prev\<lparr> lane := lane prev + 1, p_x := laneX (lane prev + 1) \<rparr> \<rparr>
           else g)
        else if key \<in> set jumpKeys then
          (if jumpHeight prev = 0
           then g\<lparr> player := prev\<lparr> isJumping := True, jumpVelocity := 0 \<rparr> \<rparr>
           else g)
        else if key \<in> set slideKeys then
          g\<lparr> player := prev\<lparr> isSliding := True \<rparr>, slideTimers := slideTimers g + 1 \<rparr>
        else if key \<in> set pauseKeys then togglePause g
        else g)"

text \<open>
  Everything that can happen to the component: an animation frame, a key, a
  click on one of the buttons that the current phase shows, and the firing of
  a scheduled timeout.
\<close>

datatype Event =
    Frame
  | KeyDown string
  | ClickStart
  | ClickResume
  | ClickMainMenu
  | SlideTimeout
  | InvulnTimeout

fun step :: "tape \<Rightarrow> Event \<Rightarrow> Engine \<Rightarrow> Engine" where
  "step rnd Frame g = gameLoop rnd g"
| "step rnd (KeyDown key) g = handleKeyPress key g"
| "step rnd ClickStart g =
     (if gameState g = Start \<or> gameState g = GameOver then startGame g else g)"
| "step rnd ClickResume g =
     (if gameState g = Paused then g\<lparr> gameState := Playing \<rparr> else g)"
| "step rnd ClickMainMenu g =
     (if gameState g = Paused \<or> gameState g = GameOver then resetGame g else g)"
| "step rnd SlideTimeout g =
     (if slideTimers g > 0
      then g\<lparr> player := (player g)\<lparr> isSliding := False \<rparr>, slideTimers := slideTimers g - 1 \<rparr>
      else g)"
| "step rnd InvulnTimeout g =
     (if invulnTimers g > 0
      then g\<lparr> player := (player g)\<lparr> isInvulnerable := False \<rparr>,
             invulnTimers := invulnTimers g - 1 \<rparr>
      else g)"

fun run :: "tape \<Rightarrow> Event list \<Rightarrow> Engine \<Rightarrow> Engine" where
  "run rnd [] g = g"
| "run rnd (e # es) g = run rnd es (step rnd e g)"

inductive reachable :: "tape \<Rightarrow> Engine \<Rightarrow> bool" for rnd :: tape where
  reachable_init: "reachable rnd initialEngine"
| reachable_step: "reachable rnd g \<Longrightarrow> reachable rnd (step rnd e g)"

section \<open>The basic variant of the engine\<close>

text \<open>
  The repository holds an earlier, smaller \<open>GameEngine\<close> without health,
  power-ups and pause. Its player and the updates that its code applies to
  the player are modelled here, with the suffix \<open>_basic\<close>:
  \<open>handleKeyPress\<close> (which returns at once unless the phase is
  \<open>playing\<close>), the physics update of \<open>gameLoop\<close>, and the slide timeout.
  \<open>startGame\<close> sets the player to the initial one. \<open>players_basic\<close> holds
  of every player that any sequence of these updates produces, in whatever
  phase, and so of every player that the basic engine can reach.
\<close>

record BasicPlayer =
  b_lane :: int
  b_x :: rat
  b_y :: rat
  b_isJumping :: bool
  b_isSliding :: bool
  b_jumpHeight :: rat

definition GAME_WIDTH_basic :: rat where "GAME_WIDTH_basic = 800"
definition LANE_WIDTH_basic :: rat where "LANE_WIDTH_basic = GAME_WIDTH_basic / 3"
definition TRACK_HEIGHT_basic :: rat where "TRACK_HEIGHT_basic = 200"
definition JUMP_POWER_basic :: rat where "JUMP_POWER_basic = 15"
definition GRAVITY_basic :: rat where "GRAVITY_basic = 8 / 10"

definition initialPlayer_basic :: BasicPlayer where
  "initialPlayer_basic =
     \<lparr> b_lane = 1,
       b_x = LANE_WIDTH_basic + LANE_WIDTH_basic / 2 - PLAYER_WIDTH / 2,
       b_y = GAME_HEIGHT - TRACK_HEIGHT_basic + 50,
       b_isJumping = False,
       b_isSliding = False,
       b_jumpHeight = 0 \<rparr>"

definition updatePhysics_basic :: "BasicPlayer \<Rightarrow> BasicPlayer" where
  "updatePhysics_basic prev =
     (if b_isJumping prev then
        let h = b_jumpHeight prev + JUMP_POWER_basic
        in if h \<ge> 100
           then prev\<lparr> b_jumpHeight := h, b_isJumping := False \<rparr>
           else prev\<lparr> b_jumpHeight := h \<rparr>
      else if b_jumpHeight prev > 0 then
        let h = b_jumpHeight prev - GRAVITY_basic
        in if h \<le> 0 then prev\<lparr> b_jumpHeight := 0 \<rparr> else prev\<lparr> b_jumpHeight := h \<rparr>
      else prev)"

definition handleKeyPress_basic :: "GameState \<Rightarrow> string \<Rightarrow> BasicPlayer \<Rightarrow> BasicPlayer" where
  "handleKeyPress_basic st key prev =
     (if st \<noteq> Playing then prev
      else if key = ''ArrowLeft'' then
        (if b_lane prev > 0
         then prev\<lparr> b_lane := b_lane prev - 1,
                     b_x := of_int (b_lane prev - 1) * LANE_WIDTH_basic + LANE_WIDTH_basic / 2
                            - PLAYER_WIDTH / 2 \<rparr>
         else prev)
      else if key = ''ArrowRight'' then
        (if b_lane prev < 2
         then prev\<lparr> b_lane := b_lane prev + 1,
                     b_x := of_int (b_lane prev + 1) * LANE_WIDTH_basic + LANE_WIDTH_basic / 2
                            - PLAYER_WIDTH / 2 \<rparr>
         else prev)
      else if key = '' '' \<or> key = ''ArrowUp'' then
        (if b_jumpHeight prev = 0 then prev\<lparr> b_isJumping := True \<rparr> else prev)
      else if key = ''ArrowDown'' then prev\<lparr> b_isSliding := True \<rparr>
      else prev)"

inductive players_basic :: "BasicPlayer \<Rightarrow> bool" where
  basic_init: "players_basic initialPlayer_basic"
| basic_frame: "players_basic p \<Longrightarrow> players_basic (updatePhysics_basic p)"
| basic_key: "players_basic p \<Longrightarrow> players_basic (handleKeyPress_basic st key p)"
| basic_slide_timeout: "players_basic p \<Longrightarrow> players_basic (p\<lparr> b_isSliding := False \<rparr>)"

section \<open>Example states\<close>

text \<open>
  Concrete states on which the theorems below are instantiated. \<open>wreck\<close> is
  a session that has just ended in the right lane.
\<close>

definition wreck :: Engine where
  "wreck =
     \<lparr> gameState = GameOver, score = 67, coins = 6, highScore = 40, level = 1,
       player = initialPlayer\<lparr> lane := 2, p_x := 730, isSliding := True, health := 0,
                  isInvulnerable := True, powerUpActive := True,
                  powerUpType := Some Magnet, powerUpTimer := 4000 \<rparr>,
       obstacles =
         [\<lparr> ob_id = 1, ob_lane = 2, ob_x = 720, ob_y = 464, ob_width = 60, ob_height = 80,
            ob_type = Barrier, ob_rotation = 0, ob_animationFrame = 69 \<rparr>],
       gameCoins =
         [\<lparr> coin_id = 3, coin_lane = 0, coin_x = 135, coin_y = 300, coin_collected = False,
            coin_value = 10, coin_type = Diamond, coin_rotation = 0, coin_animationFrame = 45 \<rparr>],
       powerUps =
         [\<lparr> pu_id = 0, pu_lane = 1, pu_x = 430, pu_y = 90, pu_type = Health,
            pu_collected = True, pu_rotation = 0, pu_animationFrame = 10 \<rparr>],
       particles = [],
       obstacleIdRef = 2, coinIdRef = 4, powerUpIdRef = 1, particleIdRef = 35,
       distanceRef = 678, frameCountRef = 113,
       randCalls = 100, slideTimers = 1, invulnTimers = 0 \<rparr>"

text \<open>
  \<open>lastHit\<close>: a player with health 25 in the centre lane, a barrier
  reaching into the player's box, the score of the last render above the
  stored high score.
\<close>

definition lastHit :: Engine where
  "lastHit =
     \<lparr> gameState = Playing, score = 67, coins = 6, highScore = 40, level = 1,
       player = initialPlayer\<lparr> health := 25 \<rparr>,
       obstacles =
         [\<lparr> ob_id = 1, ob_lane = 1, ob_x = 420, ob_y = 428, ob_width = 60, ob_height = 80,
            ob_type = Barrier, ob_rotation = 0, ob_animationFrame = 63 \<rparr>],
       gameCoins = [], powerUps = [], particles = [],
       obstacleIdRef = 2, coinIdRef = 4, powerUpIdRef = 1, particleIdRef = 35,
       distanceRef = 672, frameCountRef = 112,
       randCalls = 100, slideTimers = 0, invulnTimers = 0 \<rparr>"

text \<open>
  \<open>nearSpawn\<close>: a fresh session whose distance accumulator is one frame
  short of a multiple of 100.
\<close>

definition nearSpawn :: Engine where
  "nearSpawn = (startGame initialEngine)\<lparr> distanceRef := 94 \<rparr>"

text \<open>
  \<open>pickedCoin\<close> and \<open>pickedPowerUp\<close>: two entities that were collected on
  an earlier frame and still lie inside the box of the initial player.
\<close>

definition pickedCoin :: Coin where
  "pickedCoin =
     \<lparr> coin_id = 0, coin_lane = 1, coin_x = 435, coin_y = 504, coin_collected = True,
       coin_value = 10, coin_type = Diamond, coin_rotation = 0, coin_animationFrame = 79 \<rparr>"

definition pickedPowerUp :: PowerUp where
  "pickedPowerUp =
     \<lparr> pu_id = 0, pu_lane = 1, pu_x = 430, pu_y = 504, pu_type = Health,
       pu_collected = True, pu_rotation = 0, pu_animationFrame = 79 \<rparr>"

text \<open>
  \<open>shielded\<close>: a player whose shield has 5216 ms left, with a magnet
  power-up one frame away from the player's box.
\<close>

definition shielded :: Engine where
  "shielded =
     \<lparr> gameState = Playing, score = 90, coins = 0, highScore = 0, level = 1,
       player = initialPlayer\<lparr> powerUpActive := True, powerUpType := Some Shield,
                  powerUpTimer := 5216 \<rparr>,
       obstacles = [],
       gameCoins = [],
       powerUps =
         [\<lparr> pu_id = 1, pu_lane = 1, pu_x = 430, pu_y = 462, pu_type = Magnet,
            pu_collected = False, pu_rotation = 0, pu_animationFrame = 72 \<rparr>],
       particles = [],
       obstacleIdRef = 0, coinIdRef = 0, powerUpIdRef = 2, particleIdRef = 12,
       distanceRef = 906, frameCountRef = 151,
       randCalls = 50, slideTimers = 0, invulnTimers = 0 \<rparr>"

text \<open>
  \<open>leftmost\<close>: a fresh session after one press of the left arrow;
  \<open>leftmost_basic\<close>: the player of the basic engine after the same.
\<close>

definition leftmost :: Engine where
  "leftmost = handleKeyPress ''ArrowLeft'' (startGame initialEngine)"

definition leftmost_basic :: BasicPlayer where
  "leftmost_basic = handleKeyPress_basic Playing ''ArrowLeft'' initialPlayer_basic"

text \<open>
  \<open>bruised\<close>: a player at health 90; \<open>healthPack\<close>: a power-up of kind
  \<open>health\<close>.
\<close>

definition bruised :: Player where
  "bruised = initialPlayer\<lparr> health := 90 \<rparr>"

definition healthPack :: PowerUp where
  "healthPack =
     \<lparr> pu_id = 0, pu_lane = 1, pu_x = 430, pu_y = 468, pu_type = Health,
       pu_collected = False, pu_rotation = 0, pu_animationFrame = 73 \<rparr>"

text \<open>
  \<open>shieldedHit\<close>: a player with an active shield whose box two obstacles
  overlap.
\<close>

definition shieldedHit :: Engine where
  "shieldedHit =
     \<lparr> gameState = Playing, score = 97, coins = 0, highScore = 0, level = 1,
       player = initialPlayer\<lparr> health := 75, powerUpActive := True,
                  powerUpType := Some Shield, powerUpTimer := 9344 \<rparr>,
       obstacles =
         [\<lparr> ob_id = 1, ob_lane = 1, ob_x = 420, ob_y = 422, ob_width = 60, ob_height = 80,
            ob_type = Train, ob_rotation = 0, ob_animationFrame = 62 \<rparr>,
          \<lparr> ob_id = 2, ob_lane = 1, ob_x = 430, ob_y = 480, ob_width = 40, ob_height = 60,
            ob_type = Spike, ob_rotation = 0, ob_animationFrame = 12 \<rparr>],
       gameCoins = [], powerUps = [], particles = [],
       obstacleIdRef = 3, coinIdRef = 0, powerUpIdRef = 2, particleIdRef = 12,
       distanceRef = 972, frameCountRef = 162,
       randCalls = 60, slideTimers = 0, invulnTimers = 0 \<rparr>"

text \<open>
  Two predicates on the player, proved below to hold in every reachable
  state. The first: the player is not invulnerable while holding an active
  shield.
\<close>

definition shieldExcludesInvulnerable :: "Player \<Rightarrow> bool" where
  "shieldExcludesInvulnerable p \<longleftrightarrow>
     \<not> (isInvulnerable p \<and> powerUpActive p \<and> powerUpType p = Some Shield)"

text \<open>
  The second, the jump arc: while rising, the height and the velocity take the values
  \<open>(0, 0)\<close>, \<open>(18, 18)\<close>, \<open>(54, 36)\<close>, \<open>(108, 54)\<close>; otherwise the
  velocity is 0 and the height lies between 0 and 180.
\<close>

definition jumpArc :: "Player \<Rightarrow> bool" where
  "jumpArc p \<longleftrightarrow>
     (if isJumping p
      then (jumpHeight p = 0 \<and> jumpVelocity p = 0) \<or>
           (jumpHeight p = 18 \<and> jumpVelocity p = 18) \<or>
           (jumpHeight p = 54 \<and> jumpVelocity p = 36) \<or>
           (jumpHeight p = 108 \<and> jumpVelocity p = 54)
      else jumpVelocity p = 0 \<and> 0 \<le> jumpHeight p \<and> jumpHeight p \<le> 180)"

text \<open>
  \<open>invulnerableAtCoin\<close>: a player who was hit a moment ago, with a gold coin
  and a health power-up one frame away from the player's box;
  \<open>vulnerableAtCoin\<close> is the same state with the invulnerability cleared.
\<close>

definition invulnerableAtCoin :: Engine where
  "invulnerableAtCoin =
     \<lparr> gameState = Playing, score = 73, coins = 5, highScore = 0, level = 1,
       player = initialPlayer\<lparr> health := 75, isInvulnerable := True \<rparr>,
       obstacles = [],
       gameCoins =
         [\<lparr> coin_id = 1, coin_lane = 1, coin_x = 435, coin_y = 468, coin_collected = False,
            coin_value = 5, coin_type = Gold, coin_rotation = 0, coin_animationFrame = 73 \<rparr>],
       powerUps =
         [\<lparr> pu_id = 0, pu_lane = 1, pu_x = 430, pu_y = 468, pu_type = Health,
            pu_collected = False, pu_rotation = 0, pu_animationFrame = 73 \<rparr>],
       particles = [],
       obstacleIdRef = 2, coinIdRef = 4, powerUpIdRef = 1, particleIdRef = 23,
       distanceRef = 738, frameCountRef = 123,
       randCalls = 83, slideTimers = 0, invulnTimers = 1 \<rparr>"

definition vulnerableAtCoin :: Engine where
  "vulnerableAtCoin =
     invulnerableAtCoin\<lparr> player := (player invulnerableAtCoin)\<lparr> isInvulnerable := False \<rparr> \<rparr>"

section \<open>Basic facts\<close>

lemmas consts_defs =
  GAME_WIDTH_def GAME_HEIGHT_def LANE_WIDTH_def PLAYER_WIDTH_def PLAYER_HEIGHT_def
  GAME_SPEED_def JUMP_POWER_def GRAVITY_def MAX_JUMP_HEIGHT_def

subsection \<open>The range of Math.random\<close>

lemma Math_random_ge0: "0 \<le> Math_random rnd i"
  by (simp add: Math_random_def)

lemma Math_random_less1: "Math_random rnd i < 1"
proof -
  have "rnd i mod 2 ^ 53 < 2 ^ 53" by simp
  then have "(of_int (rnd i mod 2 ^ 53) :: rat) < of_int (2 ^ 53)"
    by (simp only: of_int_less_iff)
  then show ?thesis by (simp add: Math_random_def)
qed

lemma random_lane: "Math_floor (Math_random rnd i * 3) \<in> {0, 1, 2}"
proof -
  define k where "k = \<lfloor>Math_random rnd i * 3\<rfloor>"
  have "0 \<le> Math_random rnd i * 3" and "Math_random rnd i * 3 < 3"
    using Math_random_ge0 [of rnd i] Math_random_less1 [of rnd i] by simp_all
  then have "0 \<le> k" and "k < 3"
    unfolding k_def by (simp_all add: floor_less_iff)
  then have "k \<in> {0, 1, 2}" by auto
  then show ?thesis unfolding Math_floor_def k_def .
qed

subsection \<open>The coin scan and the power-up scan: what they leave alone\<close>

lemma collectCoins_gameState [simp]: "gameState (snd (collectCoins rnd r cs g)) = gameState g"
  by (induction cs arbitrary: g) (simp_all add: split_beta Let_def createParticle_def)

lemma collectCoins_score [simp]: "score (snd (collectCoins rnd r cs g)) = score g"
  by (induction cs arbitrary: g) (simp_all add: split_beta Let_def createParticle_def)

lemma collectCoins_highScore [simp]: "highScore (snd (collectCoins rnd r cs g)) = highScore g"
  by (induction cs arbitrary: g) (simp_all add: split_beta Let_def createParticle_def)

lemma collectCoins_level [simp]: "level (snd (collectCoins rnd r cs g)) = level g"
  by (induction cs arbitrary: g) (simp_all add: split_beta Let_def createParticle_def)

lemma collectCoins_player [simp]: "player (snd (collectCoins rnd r cs g)) = player g"
  by (induction cs arbitrary: g) (simp_all add: split_beta Let_def createParticle_def)

lemma collectCoins_obstacles [simp]: "obstacles (snd (collectCoins rnd r cs g)) = obstacles g"
  by (induction cs arbitrary: g) (simp_all add: split_beta Let_def createParticle_def)

lemma collectCoins_gameCoins [simp]: "gameCoins (snd (collectCoins rnd r cs g)) = gameCoins g"
  by (induction cs arbitrary: g) (simp_all add: split_beta Let_def createParticle_def)

lemma collectCoins_powerUps [simp]: "powerUps (snd (collectCoins rnd r cs g)) = powerUps g"
  by (induction cs arbitrary: g) (simp_all add: split_beta Let_def createParticle_def)

lemma collectCoins_obstacleIdRef [simp]: "obstacleIdRef (snd (collectCoins rnd r cs g)) = obstacleIdRef g"
  by (induction cs arbitrary: g) (simp_all add: split_beta Let_def createParticle_def)

lemma collectCoins_coinIdRef [simp]: "coinIdRef (snd (collectCoins rnd r cs g)) = coinIdRef g"
  by (induction cs arbitrary: g) (simp_all add: split_beta Let_def createParticle_def)

lemma collectCoins_powerUpIdRef [simp]: "powerUpIdRef (snd (collectCoins rnd r cs g)) = powerUpIdRef g"
  by (induction cs arbitrary: g) (simp_all add: split_beta Let_def createParticle_def)

lemma collectCoins_distanceRef [simp]: "distanceRef (snd (collectCoins rnd r cs g)) = distanceRef g"
  by (induction cs arbitrary: g) (simp_all add: split_beta Let_def createParticle_def)

lemma collectCoins_frameCountRef [simp]: "frameCountRef (snd (collectCoins rnd r cs g)) = frameCountRef g"
  by (induction cs arbitrary: g) (simp_all add: split_beta Let_def createParticle_def)

lemma collectCoins_slideTimers [simp]: "slideTimers (snd (collectCoins rnd r cs g)) = slideTimers g"
  by (induction cs arbitrary: g) (simp_all add: split_beta Let_def createParticle_def)

lemma collectCoins_invulnTimers [simp]: "invulnTimers (snd (collectCoins rnd r cs g)) = invulnTimers g"
  by (induction cs arbitrary: g) (simp_all add: split_beta Let_def createParticle_def)

lemma collectPowerUps_gameState [simp]: "gameState (snd (collectPowerUps rnd r ps g)) = gameState g"
  by (induction ps arbitrary: g) (simp_all add: split_beta Let_def createParticle_def)

lemma collectPowerUps_score [simp]: "score (snd (collectPowerUps rnd r ps g)) = score g"
  by (induction ps arbitrary: g) (simp_all add: split_beta Let_def createParticle_def)

lemma collectPowerUps_coins [simp]: "coins (snd (collectPowerUps rnd r ps g)) = coins g"
  by (induction ps arbitrary: g) (simp_all add: split_beta Let_def createParticle_def)

lemma collectPowerUps_highScore [simp]: "highScore (snd (collectPowerUps rnd r ps g)) = highScore g"
  by (induction ps arbitrary: g) (simp_all add: split_beta Let_def createParticle_def)

lemma collectPowerUps_level [simp]: "level (snd (collectPowerUps rnd r ps g)) = level g"
  by (induction ps arbitrary: g) (simp_all add: split_beta Let_def createParticle_def)

lemma collectPowerUps_obstacles [simp]: "obstacles (snd (collectPowerUps rnd r ps g)) = obstacles g"
  by (induction ps arbitrary: g) (simp_all add: split_beta Let_def createParticle_def)

lemma collectPowerUps_gameCoins [simp]: "gameCoins (snd (collectPowerUps rnd r ps g)) = gameCoins g"
  by (induction ps arbitrary: g) (simp_all add: split_beta Let_def createParticle_def)

lemma collectPowerUps_powerUps [simp]: "powerUps (snd (collectPowerUps rnd r ps g)) = powerUps g"
  by (induction ps arbitrary: g) (simp_all add: split_beta Let_def createParticle_def)

lemma collectPowerUps_obstacleIdRef [simp]: "obstacleIdRef (snd (collectPowerUps rnd r ps g)) = obstacleIdRef g"
  by (induction ps arbitrary: g) (simp_all add: split_beta Let_def createParticle_def)

lemma collectPowerUps_coinIdRef [simp]: "coinIdRef (snd (collectPowerUps rnd r ps g)) = coinIdRef g"
  by (induction ps arbitrary: g) (simp_all add: split_beta Let_def createParticle_def)

lemma collectPowerUps_powerUpIdRef [simp]: "powerUpIdRef (snd (collectPowerUps rnd r ps g)) = powerUpIdRef g"
  by (induction ps arbitrary: g) (simp_all add: split_beta Let_def createParticle_def)

lemma collectPowerUps_distanceRef [simp]: "distanceRef (snd (collectPowerUps rnd r ps g)) = distanceRef g"
  by (induction ps arbitrary: g) (simp_all add: split_beta Let_def createParticle_def)

lemma collectPowerUps_frameCountRef [simp]: "frameCountRef (snd (collectPowerUps rnd r ps g)) = frameCountRef g"
  by (induction ps arbitrary: g) (simp_all add: split_beta Let_def createParticle_def)

lemma collectPowerUps_slideTimers [simp]: "slideTimers (snd (collectPowerUps rnd r ps g)) = slideTimers g"
  by (induction ps arbitrary: g) (simp_all add: split_beta Let_def createParticle_def)

lemma collectPowerUps_invulnTimers [simp]: "invulnTimers (snd (collectPowerUps rnd r ps g)) = invulnTimers g"
  by (induction ps arbitrary: g) (simp_all add: split_beta Let_def createParticle_def)


lemma collectPowerUps_player:
  "player (snd (collectPowerUps rnd r ps g)) =
     foldl (\<lambda>p u. applyPowerUp u p) (player g)
       (filter (\<lambda>u. \<not> pu_collected u \<and> hitsPowerUp r u) ps)"
  by (induction ps arbitrary: g) (simp_all add: split_beta Let_def createParticle_def)

lemma checkObstacles_eq:
  "checkObstacles rnd s obs g =
     (if list_ex (hitsObstacle (playerRect (player s))) obs
      then Some (obstacleOutcome rnd s g) else None)"
  by (induction obs) simp_all

lemma checkCollisions_eq:
  "checkCollisions rnd s g =
     (if isInvulnerable (player s) then g
      else if list_ex (hitsObstacle (playerRect (player s))) (obstacles s)
      then obstacleOutcome rnd s g
      else checkPowerUpCollections rnd (playerRect (player s))
             (checkCoinCollections rnd (playerRect (player s)) g))"
  by (simp add: checkCollisions_def checkObstacles_eq Let_def)

subsection \<open>The stages of a frame\<close>

lemma gameLoop_playing:
  "gameState s = Playing \<Longrightarrow>
   gameLoop rnd s = checkCollisions rnd s (updateScore s (spawnEntities rnd (updateEntities s)))"
  by (simp add: gameLoop_def)

lemma gameLoop_not_playing: "gameState s \<noteq> Playing \<Longrightarrow> gameLoop rnd s = s"
  by (simp add: gameLoop_def)

lemma updateEntities_gameState [simp]: "gameState (updateEntities s) = gameState s"
  by (simp add: updateEntities_def)

lemma updateEntities_score [simp]: "score (updateEntities s) = score s"
  by (simp add: updateEntities_def)

lemma updateEntities_coins [simp]: "coins (updateEntities s) = coins s"
  by (simp add: updateEntities_def)

lemma updateEntities_highScore [simp]: "highScore (updateEntities s) = highScore s"
  by (simp add: updateEntities_def)

lemma updateEntities_level [simp]: "level (updateEntities s) = level s"
  by (simp add: updateEntities_def)

lemma updateEntities_player [simp]: "player (updateEntities s) = updatePhysics (player s)"
  by (simp add: updateEntities_def)

lemma updateEntities_obstacles [simp]: "obstacles (updateEntities s) = updateObstacles (obstacles s)"
  by (simp add: updateEntities_def)

lemma updateEntities_gameCoins [simp]: "gameCoins (updateEntities s) = updateCoins (gameCoins s)"
  by (simp add: updateEntities_def)

lemma updateEntities_powerUps [simp]: "powerUps (updateEntities s) = updatePowerUps (powerUps s)"
  by (simp add: updateEntities_def)

lemma updateEntities_particles [simp]: "particles (updateEntities s) = updateParticles (particles s)"
  by (simp add: updateEntities_def)

lemma updateEntities_obstacleIdRef [simp]: "obstacleIdRef (updateEntities s) = obstacleIdRef s"
  by (simp add: updateEntities_def)

lemma updateEntities_coinIdRef [simp]: "coinIdRef (updateEntities s) = coinIdRef s"
  by (simp add: updateEntities_def)

lemma updateEntities_powerUpIdRef [simp]: "powerUpIdRef (updateEntities s) = powerUpIdRef s"
  by (simp add: updateEntities_def)

lemma updateEntities_particleIdRef [simp]: "particleIdRef (updateEntities s) = particleIdRef s"
  by (simp add: updateEntities_def)

lemma updateEntities_distanceRef [simp]: "distanceRef (updateEntities s) = distanceRef s"
  by (simp add: updateEntities_def)

lemma updateEntities_frameCountRef [simp]: "frameCountRef (updateEntities s) = frameCountRef s + 1"
  by (simp add: updateEntities_def)

lemma updateEntities_randCalls [simp]: "randCalls (updateEntities s) = randCalls s"
  by (simp add: updateEntities_def)

lemma updateEntities_slideTimers [simp]: "slideTimers (updateEntities s) = slideTimers s"
  by (simp add: updateEntities_def)

lemma updateEntities_invulnTimers [simp]: "invulnTimers (updateEntities s) = invulnTimers s"
  by (simp add: updateEntities_def)

lemma spawnObstacle_gameState [simp]: "gameState (spawnObstacle rnd g) = gameState g"
  by (simp add: spawnObstacle_def)

lemma spawnObstacle_score [simp]: "score (spawnObstacle rnd g) = score g"
  by (simp add: spawnObstacle_def)

lemma spawnObstacle_coins [simp]: "coins (spawnObstacle rnd g) = coins g"
  by (simp add: spawnObstacle_def)

lemma spawnObstacle_highScore [simp]: "highScore (spawnObstacle rnd g) = highScore g"
  by (simp add: spawnObstacle_def)

lemma spawnObstacle_level [simp]: "level (spawnObstacle rnd g) = level g"
  by (simp add: spawnObstacle_def)

lemma spawnObstacle_player [simp]: "player (spawnObstacle rnd g) = player g"
  by (simp add: spawnObstacle_def)

lemma spawnObstacle_gameCoins [simp]: "gameCoins (spawnObstacle rnd g) = gameCoins g"
  by (simp add: spawnObstacle_def)

lemma spawnObstacle_powerUps [simp]: "powerUps (spawnObstacle rnd g) = powerUps g"
  by (simp add: spawnObstacle_def)

lemma spawnObstacle_particles [simp]: "particles (spawnObstacle rnd g) = particles g"
  by (simp add: spawnObstacle_def)

lemma spawnObstacle_coinIdRef [simp]: "coinIdRef (spawnObstacle rnd g) = coinIdRef g"
  by (simp add: spawnObstacle_def)

lemma spawnObstacle_powerUpIdRef [simp]: "powerUpIdRef (spawnObstacle rnd g) = powerUpIdRef g"
  by (simp add: spawnObstacle_def)

lemma spawnObstacle_particleIdRef [simp]: "particleIdRef (spawnObstacle rnd g) = particleIdRef g"
  by (simp add: spawnObstacle_def)

lemma spawnObstacle_distanceRef [simp]: "distanceRef (spawnObstacle rnd g) = distanceRef g"
  by (simp add: spawnObstacle_def)

lemma spawnObstacle_frameCountRef [simp]: "frameCountRef (spawnObstacle rnd g) = frameCountRef g"
  by (simp add: spawnObstacle_def)

lemma spawnObstacle_slideTimers [simp]: "slideTimers (spawnObstacle rnd g) = slideTimers g"
  by (simp add: spawnObstacle_def)

lemma spawnObstacle_invulnTimers [simp]: "invulnTimers (spawnObstacle rnd g) = invulnTimers g"
  by (simp add: spawnObstacle_def)

lemma spawnCoin_gameState [simp]: "gameState (spawnCoin rnd g) = gameState g"
  by (simp add: spawnCoin_def)

lemma spawnCoin_score [simp]: "score (spawnCoin rnd g) = score g"
  by (simp add: spawnCoin_def)

lemma spawnCoin_coins [simp]: "coins (spawnCoin rnd g) = coins g"
  by (simp add: spawnCoin_def)

lemma spawnCoin_highScore [simp]: "highScore (spawnCoin rnd g) = highScore g"
  by (simp add: spawnCoin_def)

lemma spawnCoin_level [simp]: "level (spawnCoin rnd g) = level g"
  by (simp add: spawnCoin_def)

lemma spawnCoin_player [simp]: "player (spawnCoin rnd g) = player g"
  by (simp add: spawnCoin_def)

lemma spawnCoin_obstacles [simp]: "obstacles (spawnCoin rnd g) = obstacles g"
  by (simp add: spawnCoin_def)

lemma spawnCoin_powerUps [simp]: "powerUps (spawnCoin rnd g) = powerUps g"
  by (simp add: spawnCoin_def)

lemma spawnCoin_particles [simp]: "particles (spawnCoin rnd g) = particles g"
  by (simp add: spawnCoin_def)

lemma spawnCoin_obstacleIdRef [simp]: "obstacleIdRef (spawnCoin rnd g) = obstacleIdRef g"
  by (simp add: spawnCoin_def)

lemma spawnCoin_powerUpIdRef [simp]: "powerUpIdRef (spawnCoin rnd g) = powerUpIdRef g"
  by (simp add: spawnCoin_def)

lemma spawnCoin_particleIdRef [simp]: "particleIdRef (spawnCoin rnd g) = particleIdRef g"
  by (simp add: spawnCoin_def)

lemma spawnCoin_distanceRef [simp]: "distanceRef (spawnCoin rnd g) = distanceRef g"
  by (simp add: spawnCoin_def)

lemma spawnCoin_frameCountRef [simp]: "frameCountRef (spawnCoin rnd g) = frameCountRef g"
  by (simp add: spawnCoin_def)

lemma spawnCoin_slideTimers [simp]: "slideTimers (spawnCoin rnd g) = slideTimers g"
  by (simp add: spawnCoin_def)

lemma spawnCoin_invulnTimers [simp]: "invulnTimers (spawnCoin rnd g) = invulnTimers g"
  by (simp add: spawnCoin_def)

lemma spawnPowerUp_gameState [simp]: "gameState (spawnPowerUp rnd g) = gameState g"
  by (simp add: spawnPowerUp_def)

lemma spawnPowerUp_score [simp]: "score (spawnPowerUp rnd g) = score g"
  by (simp add: spawnPowerUp_def)

lemma spawnPowerUp_coins [simp]: "coins (spawnPowerUp rnd g) = coins g"
  by (simp add: spawnPowerUp_def)

lemma spawnPowerUp_highScore [simp]: "highScore (spawnPowerUp rnd g) = highScore g"
  by (simp add: spawnPowerUp_def)

lemma spawnPowerUp_level [simp]: "level (spawnPowerUp rnd g) = level g"
  by (simp add: spawnPowerUp_def)

lemma spawnPowerUp_player [simp]: "player (spawnPowerUp rnd g) = player g"
  by (simp add: spawnPowerUp_def)

lemma spawnPowerUp_obstacles [simp]: "obstacles (spawnPowerUp rnd g) = obstacles g"
  by (simp add: spawnPowerUp_def)

lemma spawnPowerUp_gameCoins [simp]: "gameCoins (spawnPowerUp rnd g) = gameCoins g"
  by (simp add: spawnPowerUp_def)

lemma spawnPowerUp_particles [simp]: "particles (spawnPowerUp rnd g) = particles g"
  by (simp add: spawnPowerUp_def)

lemma spawnPowerUp_obstacleIdRef [simp]: "obstacleIdRef (spawnPowerUp rnd g) = obstacleIdRef g"
  by (simp add: spawnPowerUp_def)

lemma spawnPowerUp_coinIdRef [simp]: "coinIdRef (spawnPowerUp rnd g) = coinIdRef g"
  by (simp add: spawnPowerUp_def)

lemma spawnPowerUp_particleIdRef [simp]: "particleIdRef (spawnPowerUp rnd g) = particleIdRef g"
  by (simp add: spawnPowerUp_def)

lemma spawnPowerUp_distanceRef [simp]: "distanceRef (spawnPowerUp rnd g) = distanceRef g"
  by (simp add: spawnPowerUp_def)

lemma spawnPowerUp_frameCountRef [simp]: "frameCountRef (spawnPowerUp rnd g) = frameCountRef g"
  by (simp add: spawnPowerUp_def)

lemma spawnPowerUp_slideTimers [simp]: "slideTimers (spawnPowerUp rnd g) = slideTimers g"
  by (simp add: spawnPowerUp_def)

lemma spawnPowerUp_invulnTimers [simp]: "invulnTimers (spawnPowerUp rnd g) = invulnTimers g"
  by (simp add: spawnPowerUp_def)

lemma spawnEntities_gameState [simp]: "gameState (spawnEntities rnd g) = gameState g"
  by (simp add: spawnEntities_def Let_def)

lemma spawnEntities_score [simp]: "score (spawnEntities rnd g) = score g"
  by (simp add: spawnEntities_def Let_def)

lemma spawnEntities_coins [simp]: "coins (spawnEntities rnd g) = coins g"
  by (simp add: spawnEntities_def Let_def)

lemma spawnEntities_highScore [simp]: "highScore (spawnEntities rnd g) = highScore g"
  by (simp add: spawnEntities_def Let_def)

lemma spawnEntities_level [simp]: "level (spawnEntities rnd g) = level g"
  by (simp add: spawnEntities_def Let_def)

lemma spawnEntities_player [simp]: "player (spawnEntities rnd g) = player g"
  by (simp add: spawnEntities_def Let_def)

lemma spawnEntities_particles [simp]: "particles (spawnEntities rnd g) = particles g"
  by (simp add: spawnEntities_def Let_def)

lemma spawnEntities_particleIdRef [simp]: "particleIdRef (spawnEntities rnd g) = particleIdRef g"
  by (simp add: spawnEntities_def Let_def)

lemma spawnEntities_frameCountRef [simp]: "frameCountRef (spawnEntities rnd g) = frameCountRef g"
  by (simp add: spawnEntities_def Let_def)

lemma spawnEntities_slideTimers [simp]: "slideTimers (spawnEntities rnd g) = slideTimers g"
  by (simp add: spawnEntities_def Let_def)

lemma spawnEntities_invulnTimers [simp]: "invulnTimers (spawnEntities rnd g) = invulnTimers g"
  by (simp add: spawnEntities_def Let_def)


lemma spawnEntities_distanceRef [simp]:
  "distanceRef (spawnEntities rnd g) = distanceRef g + GAME_SPEED"
  by (simp add: spawnEntities_def Let_def)

lemma spawnObstacle_obstacles:
  "\<exists>obstacle. obstacles (spawnObstacle rnd g) = obstacles g @ [obstacle] \<and>
     ob_lane obstacle \<in> {0, 1, 2} \<and> ob_y obstacle = 50 \<and> ob_id obstacle = obstacleIdRef g"
  using random_lane [of rnd "randCalls g"]
  by (simp add: spawnObstacle_def newObstacle_def Let_def)

lemma spawnEntities_obstacles:
  "obstacles (spawnEntities rnd g) =
     (if (distanceRef g + GAME_SPEED) mod 100 = 0
      then obstacles (spawnObstacle rnd (g\<lparr> distanceRef := distanceRef g + GAME_SPEED \<rparr>))
      else obstacles g)"
  by (simp add: spawnEntities_def Let_def)


lemma updateScore_gameState [simp]: "gameState (updateScore s g) = gameState g"
  by (simp add: updateScore_def Let_def)

lemma updateScore_coins [simp]: "coins (updateScore s g) = coins g"
  by (simp add: updateScore_def Let_def)

lemma updateScore_highScore [simp]: "highScore (updateScore s g) = highScore g"
  by (simp add: updateScore_def Let_def)

lemma updateScore_player [simp]: "player (updateScore s g) = player g"
  by (simp add: updateScore_def Let_def)

lemma updateScore_obstacles [simp]: "obstacles (updateScore s g) = obstacles g"
  by (simp add: updateScore_def Let_def)

lemma updateScore_gameCoins [simp]: "gameCoins (updateScore s g) = gameCoins g"
  by (simp add: updateScore_def Let_def)

lemma updateScore_powerUps [simp]: "powerUps (updateScore s g) = powerUps g"
  by (simp add: updateScore_def Let_def)

lemma updateScore_particles [simp]: "particles (updateScore s g) = particles g"
  by (simp add: updateScore_def Let_def)

lemma updateScore_obstacleIdRef [simp]: "obstacleIdRef (updateScore s g) = obstacleIdRef g"
  by (simp add: updateScore_def Let_def)

lemma updateScore_coinIdRef [simp]: "coinIdRef (updateScore s g) = coinIdRef g"
  by (simp add: updateScore_def Let_def)

lemma updateScore_powerUpIdRef [simp]: "powerUpIdRef (updateScore s g) = powerUpIdRef g"
  by (simp add: updateScore_def Let_def)

lemma updateScore_particleIdRef [simp]: "particleIdRef (updateScore s g) = particleIdRef g"
  by (simp add: updateScore_def Let_def)

lemma updateScore_distanceRef [simp]: "distanceRef (updateScore s g) = distanceRef g"
  by (simp add: updateScore_def Let_def)

lemma updateScore_frameCountRef [simp]: "frameCountRef (updateScore s g) = frameCountRef g"
  by (simp add: updateScore_def Let_def)

lemma updateScore_randCalls [simp]: "randCalls (updateScore s g) = randCalls g"
  by (simp add: updateScore_def Let_def)

lemma updateScore_slideTimers [simp]: "slideTimers (updateScore s g) = slideTimers g"
  by (simp add: updateScore_def Let_def)

lemma updateScore_invulnTimers [simp]: "invulnTimers (updateScore s g) = invulnTimers g"
  by (simp add: updateScore_def Let_def)

lemma checkCoinCollections_gameState [simp]: "gameState (checkCoinCollections rnd r g) = gameState g"
  by (simp add: checkCoinCollections_def split_beta)

lemma checkCoinCollections_score [simp]: "score (checkCoinCollections rnd r g) = score g"
  by (simp add: checkCoinCollections_def split_beta)

lemma checkCoinCollections_highScore [simp]: "highScore (checkCoinCollections rnd r g) = highScore g"
  by (simp add: checkCoinCollections_def split_beta)

lemma checkCoinCollections_level [simp]: "level (checkCoinCollections rnd r g) = level g"
  by (simp add: checkCoinCollections_def split_beta)

lemma checkCoinCollections_player [simp]: "player (checkCoinCollections rnd r g) = player g"
  by (simp add: checkCoinCollections_def split_beta)

lemma checkCoinCollections_obstacles [simp]: "obstacles (checkCoinCollections rnd r g) = obstacles g"
  by (simp add: checkCoinCollections_def split_beta)

lemma checkCoinCollections_powerUps [simp]: "powerUps (checkCoinCollections rnd r g) = powerUps g"
  by (simp add: checkCoinCollections_def split_beta)

lemma checkCoinCollections_obstacleIdRef [simp]: "obstacleIdRef (checkCoinCollections rnd r g) = obstacleIdRef g"
  by (simp add: checkCoinCollections_def split_beta)

lemma checkCoinCollections_coinIdRef [simp]: "coinIdRef (checkCoinCollections rnd r g) = coinIdRef g"
  by (simp add: checkCoinCollections_def split_beta)

lemma checkCoinCollections_powerUpIdRef [simp]: "powerUpIdRef (checkCoinCollections rnd r g) = powerUpIdRef g"
  by (simp add: checkCoinCollections_def split_beta)

lemma checkCoinCollections_distanceRef [simp]: "distanceRef (checkCoinCollections rnd r g) = distanceRef g"
  by (simp add: checkCoinCollections_def split_beta)

lemma checkCoinCollections_frameCountRef [simp]: "frameCountRef (checkCoinCollections rnd r g) = frameCountRef g"
  by (simp add: checkCoinCollections_def split_beta)

lemma checkCoinCollections_slideTimers [simp]: "slideTimers (checkCoinCollections rnd r g) = slideTimers g"
  by (simp add: checkCoinCollections_def split_beta)

lemma checkCoinCollections_invulnTimers [simp]: "invulnTimers (checkCoinCollections rnd r g) = invulnTimers g"
  by (simp add: checkCoinCollections_def split_beta)

lemma checkPowerUpCollections_gameState [simp]: "gameState (checkPowerUpCollections rnd r g) = gameState g"
  by (simp add: checkPowerUpCollections_def split_beta)

lemma checkPowerUpCollections_score [simp]: "score (checkPowerUpCollections rnd r g) = score g"
  by (simp add: checkPowerUpCollections_def split_beta)

lemma checkPowerUpCollections_coins [simp]: "coins (checkPowerUpCollections rnd r g) = coins g"
  by (simp add: checkPowerUpCollections_def split_beta)

lemma checkPowerUpCollections_highScore [simp]: "highScore (checkPowerUpCollections rnd r g) = highScore g"
  by (simp add: checkPowerUpCollections_def split_beta)

lemma checkPowerUpCollections_level [simp]: "level (checkPowerUpCollections rnd r g) = level g"
  by (simp add: checkPowerUpCollections_def split_beta)

lemma checkPowerUpCollections_obstacles [simp]: "obstacles (checkPowerUpCollections rnd r g) = obstacles g"
  by (simp add: checkPowerUpCollections_def split_beta)

lemma checkPowerUpCollections_gameCoins [simp]: "gameCoins (checkPowerUpCollections rnd r g) = gameCoins g"
  by (simp add: checkPowerUpCollections_def split_beta)

lemma checkPowerUpCollections_obstacleIdRef [simp]: "obstacleIdRef (checkPowerUpCollections rnd r g) = obstacleIdRef g"
  by (simp add: checkPowerUpCollections_def split_beta)

lemma checkPowerUpCollections_coinIdRef [simp]: "coinIdRef (checkPowerUpCollections rnd r g) = coinIdRef g"
  by (simp add: checkPowerUpCollections_def split_beta)

lemma checkPowerUpCollections_powerUpIdRef [simp]: "powerUpIdRef (checkPowerUpCollections rnd r g) = powerUpIdRef g"
  by (simp add: checkPowerUpCollections_def split_beta)

lemma checkPowerUpCollections_distanceRef [simp]: "distanceRef (checkPowerUpCollections rnd r g) = distanceRef g"
  by (simp add: checkPowerUpCollections_def split_beta)

lemma checkPowerUpCollections_frameCountRef [simp]: "frameCountRef (checkPowerUpCollections rnd r g) = frameCountRef g"
  by (simp add: checkPowerUpCollections_def split_beta)

lemma checkPowerUpCollections_slideTimers [simp]: "slideTimers (checkPowerUpCollections rnd r g) = slideTimers g"
  by (simp add: checkPowerUpCollections_def split_beta)

lemma checkPowerUpCollections_invulnTimers [simp]: "invulnTimers (checkPowerUpCollections rnd r g) = invulnTimers g"
  by (simp add: checkPowerUpCollections_def split_beta)

lemma obstacleOutcome_score [simp]: "score (obstacleOutcome rnd s g) = score g"
  by (simp add: obstacleOutcome_def createParticle_def Let_def)

lemma obstacleOutcome_coins [simp]: "coins (obstacleOutcome rnd s g) = coins g"
  by (simp add: obstacleOutcome_def createParticle_def Let_def)

lemma obstacleOutcome_level [simp]: "level (obstacleOutcome rnd s g) = level g"
  by (simp add: obstacleOutcome_def createParticle_def Let_def)

lemma obstacleOutcome_obstacles [simp]: "obstacles (obstacleOutcome rnd s g) = obstacles g"
  by (simp add: obstacleOutcome_def createParticle_def Let_def)

lemma obstacleOutcome_gameCoins [simp]: "gameCoins (obstacleOutcome rnd s g) = gameCoins g"
  by (simp add: obstacleOutcome_def createParticle_def Let_def)

lemma obstacleOutcome_powerUps [simp]: "powerUps (obstacleOutcome rnd s g) = powerUps g"
  by (simp add: obstacleOutcome_def createParticle_def Let_def)

lemma obstacleOutcome_obstacleIdRef [simp]: "obstacleIdRef (obstacleOutcome rnd s g) = obstacleIdRef g"
  by (simp add: obstacleOutcome_def createParticle_def Let_def)

lemma obstacleOutcome_coinIdRef [simp]: "coinIdRef (obstacleOutcome rnd s g) = coinIdRef g"
  by (simp add: obstacleOutcome_def createParticle_def Let_def)

lemma obstacleOutcome_powerUpIdRef [simp]: "powerUpIdRef (obstacleOutcome rnd s g) = powerUpIdRef g"
  by (simp add: obstacleOutcome_def createParticle_def Let_def)

lemma obstacleOutcome_distanceRef [simp]: "distanceRef (obstacleOutcome rnd s g) = distanceRef g"
  by (simp add: obstacleOutcome_def createParticle_def Let_def)

lemma obstacleOutcome_frameCountRef [simp]: "frameCountRef (obstacleOutcome rnd s g) = frameCountRef g"
  by (simp add: obstacleOutcome_def createParticle_def Let_def)

lemma obstacleOutcome_slideTimers [simp]: "slideTimers (obstacleOutcome rnd s g) = slideTimers g"
  by (simp add: obstacleOutcome_def createParticle_def Let_def)

lemma checkCollisions_score [simp]: "score (checkCollisions rnd s g) = score g"
  by (simp add: checkCollisions_eq)

lemma checkCollisions_level [simp]: "level (checkCollisions rnd s g) = level g"
  by (simp add: checkCollisions_eq)

lemma checkCollisions_obstacles [simp]: "obstacles (checkCollisions rnd s g) = obstacles g"
  by (simp add: checkCollisions_eq)

lemma checkCollisions_obstacleIdRef [simp]: "obstacleIdRef (checkCollisions rnd s g) = obstacleIdRef g"
  by (simp add: checkCollisions_eq)

lemma checkCollisions_coinIdRef [simp]: "coinIdRef (checkCollisions rnd s g) = coinIdRef g"
  by (simp add: checkCollisions_eq)

lemma checkCollisions_powerUpIdRef [simp]: "powerUpIdRef (checkCollisions rnd s g) = powerUpIdRef g"
  by (simp add: checkCollisions_eq)

lemma checkCollisions_distanceRef [simp]: "distanceRef (checkCollisions rnd s g) = distanceRef g"
  by (simp add: checkCollisions_eq)

lemma checkCollisions_frameCountRef [simp]: "frameCountRef (checkCollisions rnd s g) = frameCountRef g"
  by (simp add: checkCollisions_eq)

lemma checkCollisions_slideTimers [simp]: "slideTimers (checkCollisions rnd s g) = slideTimers g"
  by (simp add: checkCollisions_eq)

lemma updateScore_score [simp]:
  "score (updateScore s g) = Math_floor (of_int (distanceRef g) / 10)"
  by (simp add: updateScore_def Let_def)

lemma checkPowerUpCollections_player:
  "player (checkPowerUpCollections rnd r g) =
     foldl (\<lambda>p u. applyPowerUp u p) (player g)
       (filter (\<lambda>u. \<not> pu_collected u \<and> hitsPowerUp r u) (powerUps g))"
  by (simp add: checkPowerUpCollections_def split_beta collectPowerUps_player)

lemma checkCollisions_player:
  "player (checkCollisions rnd s g) =
     (if isInvulnerable (player s) then player g
      else if list_ex (hitsObstacle (playerRect (player s))) (obstacles s) then
        (if powerUpActive (player s) \<and> powerUpType (player s) = Some Shield
         then player g else takeDamage (player g))
      else foldl (\<lambda>p u. applyPowerUp u p) (player g)
             (filter (\<lambda>u. \<not> pu_collected u \<and> hitsPowerUp (playerRect (player s)) u)
                (powerUps g)))"
  by (simp add: checkCollisions_eq checkPowerUpCollections_player obstacleOutcome_def
      createParticle_def Let_def)

lemma checkCollisions_gameState:
  "gameState (checkCollisions rnd s g) =
     (if \<not> isInvulnerable (player s) \<and>
         list_ex (hitsObstacle (playerRect (player s))) (obstacles s) \<and>
         \<not> (powerUpActive (player s) \<and> powerUpType (player s) = Some Shield) \<and>
         health (player s) \<le> 25
      then GameOver else gameState g)"
  by (simp add: checkCollisions_eq obstacleOutcome_def createParticle_def Let_def)

lemma checkCollisions_highScore:
  "highScore (checkCollisions rnd s g) =
     (if \<not> isInvulnerable (player s) \<and>
         list_ex (hitsObstacle (playerRect (player s))) (obstacles s) \<and>
         \<not> (powerUpActive (player s) \<and> powerUpType (player s) = Some Shield) \<and>
         health (player s) \<le> 25 \<and> score s > highScore s
      then score s else highScore g)"
  by (auto simp: checkCollisions_eq obstacleOutcome_def createParticle_def Let_def)

lemma gameLoop_player:
  "gameState s = Playing \<Longrightarrow>
   player (gameLoop rnd s) =
     (if isInvulnerable (player s) then updatePhysics (player s)
      else if list_ex (hitsObstacle (playerRect (player s))) (obstacles s) then
        (if powerUpActive (player s) \<and> powerUpType (player s) = Some Shield
         then updatePhysics (player s) else takeDamage (updatePhysics (player s)))
      else foldl (\<lambda>p u. applyPowerUp u p) (updatePhysics (player s))
             (filter (\<lambda>u. \<not> pu_collected u \<and> hitsPowerUp (playerRect (player s)) u)
                (powerUps (spawnEntities rnd (updateEntities s)))))"
  by (simp add: gameLoop_playing checkCollisions_player)

section \<open>The claims\<close>

subsection \<open>C8: restarting after game over\<close>

text \<open>
  C8. Issuing the start command in the phase \<open>gameOver\<close> (the space key or
  the button) runs \<open>startGame\<close>, which restores the player to the exact
  initial state (lane 1, initial position, not jumping, not sliding, jump
  height 0, health 100, not invulnerable, no active power-up), empties the
  obstacles, coins, power-ups and particles, and resets the score, the coin
  total, the level and the distance accumulator; the phase becomes \<open>playing\<close>.
\<close>

theorem startGame_restores:
  "gameState g = GameOver \<Longrightarrow>
     handleKeyPress '' '' g = startGame g \<and>
     step rnd ClickStart g = startGame g \<and>
     gameState (startGame g) = Playing \<and>
     player (startGame g) = player initialEngine \<and>
     lane (player (startGame g)) = 1 \<and>
     p_x (player (startGame g)) = 430 \<and>
     p_y (player (startGame g)) = 500 \<and>
     \<not> isJumping (player (startGame g)) \<and>
     \<not> isSliding (player (startGame g)) \<and>
     jumpHeight (player (startGame g)) = 0 \<and>
     jumpVelocity (player (startGame g)) = 0 \<and>
     health (player (startGame g)) = 100 \<and>
     maxHealth (player (startGame g)) = 100 \<and>
     \<not> isInvulnerable (player (startGame g)) \<and>
     \<not> powerUpActive (player (startGame g)) \<and>
     powerUpType (player (startGame g)) = None \<and>
     obstacles (startGame g) = [] \<and>
     gameCoins (startGame g) = [] \<and>
     powerUps (startGame g) = [] \<and>
     particles (startGame g) = [] \<and>
     score (startGame g) = 0 \<and>
     coins (startGame g) = 0 \<and>
     level (startGame g) = 1 \<and>
     distanceRef (startGame g) = 0"
  by (simp add: handleKeyPress_def startGame_def initialEngine_def initialPlayer_def consts_defs)

theorem startGame_restores_witness:
  "gameState wreck = GameOver \<and>
   handleKeyPress '' '' wreck = startGame wreck \<and>
   player (startGame wreck) = player initialEngine \<and>
   player wreck \<noteq> player initialEngine \<and>
   obstacles wreck \<noteq> [] \<and> obstacles (startGame wreck) = [] \<and>
   gameCoins wreck \<noteq> [] \<and> gameCoins (startGame wreck) = [] \<and>
   powerUps wreck \<noteq> [] \<and> powerUps (startGame wreck) = [] \<and>
   score (startGame wreck) = 0 \<and> coins (startGame wreck) = 0 \<and>
   level (startGame wreck) = 1 \<and> distanceRef (startGame wreck) = 0"
proof -
  have go: "gameState wreck = GameOver" by (simp add: wreck_def)
  have diff: "player wreck \<noteq> player initialEngine"
  proof
    assume "player wreck = player initialEngine"
    then have "lane (player wreck) = lane (player initialEngine)" by simp
    then show False by (simp add: wreck_def initialEngine_def initialPlayer_def)
  qed
  have ne: "obstacles wreck \<noteq> []" "gameCoins wreck \<noteq> []" "powerUps wreck \<noteq> []"
    by (simp_all add: wreck_def)
  show ?thesis using startGame_restores [OF go] diff ne go by simp
qed

subsection \<open>C4: the hit that ends the game\<close>

lemma updatePhysics_health [simp]: "health (updatePhysics p) = health p"
  by (simp add: updatePhysics_def Let_def)

text \<open>
  C4. A player with health exactly 25, not invulnerable and without an active
  shield, whose box overlaps an obstacle in a frame of the playing phase: the
  health drops by the fixed damage 25 (to 0), the phase becomes \<open>gameOver\<close>,
  and the stored high score becomes the score of the last render exactly when
  that score was strictly greater; otherwise it keeps its value.
\<close>

theorem fatal_hit:
  assumes "gameState s = Playing"
    and "health (player s) = 25"
    and "\<not> isInvulnerable (player s)"
    and "\<not> (powerUpActive (player s) \<and> powerUpType (player s) = Some Shield)"
    and "list_ex (hitsObstacle (playerRect (player s))) (obstacles s)"
  shows "health (player (gameLoop rnd s)) = health (player s) - 25 \<and>
         health (player (gameLoop rnd s)) = 0 \<and>
         gameState (gameLoop rnd s) = GameOver \<and>
         highScore (gameLoop rnd s) = (if score s > highScore s then score s else highScore s)"
proof -
  have p: "player (gameLoop rnd s) = takeDamage (updatePhysics (player s))"
    using assms by (auto simp: gameLoop_player)
  have h: "health (player (gameLoop rnd s)) = 0"
    using assms(2) by (simp add: p takeDamage_def)
  have st: "gameState (gameLoop rnd s) = GameOver"
    using assms by (auto simp: gameLoop_playing checkCollisions_gameState)
  have hs: "highScore (gameLoop rnd s) = (if score s > highScore s then score s else highScore s)"
    using assms by (auto simp: gameLoop_playing checkCollisions_highScore)
  show ?thesis using h st hs assms(2) by simp
qed

theorem fatal_hit_witness:
  "gameState lastHit = Playing \<and> health (player lastHit) = 25 \<and>
   score lastHit = 67 \<and> highScore lastHit = 40 \<and>
   health (player (gameLoop (\<lambda>i. 0) lastHit)) = 0 \<and>
   gameState (gameLoop (\<lambda>i. 0) lastHit) = GameOver \<and>
   highScore (gameLoop (\<lambda>i. 0) lastHit) = 67"
proof -
  have a: "gameState lastHit = Playing" "health (player lastHit) = 25"
    "\<not> isInvulnerable (player lastHit)"
    "\<not> (powerUpActive (player lastHit) \<and> powerUpType (player lastHit) = Some Shield)"
    by (simp_all add: lastHit_def initialPlayer_def)
  have b: "list_ex (hitsObstacle (playerRect (player lastHit))) (obstacles lastHit)"
    by (simp add: lastHit_def initialPlayer_def playerRect_def hitsObstacle_def consts_defs)
  have c: "score lastHit = 67" "highScore lastHit = 40"
    by (simp_all add: lastHit_def)
  show ?thesis using fatal_hit [OF a b, of "\<lambda>i. 0"] a c by simp
qed

subsection \<open>C3: the first obstacle of a session\<close>

lemma run_snoc: "run rnd (es @ [e]) g = step rnd e (run rnd es g)"
  by (induction es arbitrary: g) simp_all

lemma run_replicate_Suc:
  "run rnd (replicate (Suc n) Frame) g = gameLoop rnd (run rnd (replicate n Frame) g)"
  using run_snoc [of rnd "replicate n Frame" Frame g]
  by (simp add: replicate_append_same)

lemma gameLoop_distanceRef:
  "gameState s = Playing \<Longrightarrow> distanceRef (gameLoop rnd s) = distanceRef s + GAME_SPEED"
  by (simp add: gameLoop_playing)

lemma gameLoop_obstacles:
  "gameState s = Playing \<Longrightarrow>
   obstacles (gameLoop rnd s) =
     (if (distanceRef s + GAME_SPEED) mod 100 = 0
      then updateObstacles (obstacles s) @
             [newObstacle rnd (updateEntities s\<lparr> distanceRef := distanceRef s + GAME_SPEED \<rparr>)]
      else updateObstacles (obstacles s))"
  by (simp add: gameLoop_playing spawnEntities_obstacles spawnObstacle_def)

lemma newObstacle_lane_y:
  "ob_lane (newObstacle rnd g) \<in> {0, 1, 2} \<and> ob_y (newObstacle rnd g) = 50"
  using random_lane [of rnd "randCalls g"]
  by (simp add: newObstacle_def Let_def)

lemma gameLoop_gameState_clear:
  "gameState s = Playing \<Longrightarrow> obstacles s = [] \<Longrightarrow> gameState (gameLoop rnd s) = Playing"
  by (simp add: gameLoop_playing checkCollisions_gameState)

lemma no_multiple_before_50:
  assumes "0 < n" and "n < 50"
  shows "(6 * int n) mod 100 \<noteq> 0"
proof
  assume "(6 * int n) mod 100 = 0"
  then have "100 dvd 6 * int n" by (simp add: mod_eq_0_iff_dvd)
  then obtain k where k: "6 * int n = 100 * k" by (auto simp: dvd_def)
  then have "3 * int n = 50 * k" by simp
  moreover have "0 < int n" "int n < 50" using assms by simp_all
  ultimately show False by arith
qed

lemma quiet_frames:
  "n < 50 \<Longrightarrow>
   gameState (run rnd (replicate n Frame) (startGame g)) = Playing \<and>
   distanceRef (run rnd (replicate n Frame) (startGame g)) = 6 * int n \<and>
   obstacles (run rnd (replicate n Frame) (startGame g)) = []"
proof (induction n)
  case 0
  show ?case by (simp add: startGame_def)
next
  case (Suc n)
  let ?s = "run rnd (replicate n Frame) (startGame g)"
  from Suc have ih: "gameState ?s = Playing" "distanceRef ?s = 6 * int n" "obstacles ?s = []"
    by simp_all
  have nm: "(6 * int (Suc n)) mod 100 \<noteq> 0"
    using Suc.prems by (intro no_multiple_before_50) simp_all
  have d: "distanceRef ?s + GAME_SPEED = 6 * int (Suc n)"
    using ih(2) by (simp add: GAME_SPEED_def)
  have "obstacles (gameLoop rnd ?s) = []"
    using nm by (simp add: gameLoop_obstacles [OF ih(1)] d ih(3) updateObstacles_def)
  moreover have "gameState (gameLoop rnd ?s) = Playing"
    using ih by (simp add: gameLoop_gameState_clear)
  moreover have "distanceRef (gameLoop rnd ?s) = 6 * int (Suc n)"
    using d by (simp add: gameLoop_distanceRef [OF ih(1)])
  ultimately show ?case by (simp only: run_replicate_Suc)
qed

text \<open>
  C3. After \<open>startGame\<close>, the distance accumulator grows by 6 per frame; for
  the first 49 frames the session stays in the playing phase, the accumulator
  is not a multiple of the obstacle interval 100 and there is no obstacle. At
  frame 50 the accumulator is 300, a multiple of 100, and that frame appends
  exactly one obstacle, with a lane in \<open>{0, 1, 2}\<close> and \<open>y\<close> at the spawn
  origin 50. In general a frame of the playing phase appends one such obstacle
  to the moved obstacles when the new accumulator is a multiple of 100, and
  none otherwise.
\<close>

theorem first_obstacle_spawn:
  "(\<forall>n<50. gameState (run rnd (replicate n Frame) (startGame g)) = Playing \<and>
            distanceRef (run rnd (replicate n Frame) (startGame g)) = 6 * int n \<and>
            (0 < n \<longrightarrow> distanceRef (run rnd (replicate n Frame) (startGame g)) mod 100 \<noteq> 0) \<and>
            obstacles (run rnd (replicate n Frame) (startGame g)) = []) \<and>
   distanceRef (run rnd (replicate 50 Frame) (startGame g)) = 300 \<and>
   distanceRef (run rnd (replicate 50 Frame) (startGame g)) mod 100 = 0 \<and>
   (\<exists>obstacle. obstacles (run rnd (replicate 50 Frame) (startGame g)) = [obstacle] \<and>
      ob_lane obstacle \<in> {0, 1, 2} \<and> ob_y obstacle = 50) \<and>
   (gameState s = Playing \<and> distanceRef (gameLoop rnd s) mod 100 = 0 \<longrightarrow>
      (\<exists>obstacle. obstacles (gameLoop rnd s) = updateObstacles (obstacles s) @ [obstacle] \<and>
         ob_lane obstacle \<in> {0, 1, 2} \<and> ob_y obstacle = 50)) \<and>
   (gameState s = Playing \<and> distanceRef (gameLoop rnd s) mod 100 \<noteq> 0 \<longrightarrow>
      obstacles (gameLoop rnd s) = updateObstacles (obstacles s))"
proof -
  define s49 where "s49 = run rnd (replicate 49 Frame) (startGame g)"
  have q: "\<forall>n<50. gameState (run rnd (replicate n Frame) (startGame g)) = Playing \<and>
            distanceRef (run rnd (replicate n Frame) (startGame g)) = 6 * int n \<and>
            (0 < n \<longrightarrow> distanceRef (run rnd (replicate n Frame) (startGame g)) mod 100 \<noteq> 0) \<and>
            obstacles (run rnd (replicate n Frame) (startGame g)) = []"
    using quiet_frames [of _ rnd g] no_multiple_before_50 by auto
  have "(49::nat) < 50" by simp
  from quiet_frames [OF this, of rnd g]
  have s49: "gameState s49 = Playing" "distanceRef s49 = 6 * int 49" "obstacles s49 = []"
    unfolding s49_def by blast+
  have "Suc 49 = (50::nat)" by simp
  from run_replicate_Suc [of rnd 49 "startGame g", unfolded this]
  have r50: "run rnd (replicate 50 Frame) (startGame g) = gameLoop rnd s49"
    unfolding s49_def .
  have d50: "distanceRef (gameLoop rnd s49) = 300"
    by (simp add: gameLoop_distanceRef [OF s49(1)] s49(2) GAME_SPEED_def)
  have m50: "distanceRef (gameLoop rnd s49) mod 100 = 0"
    by (simp add: d50)
  have o50: "obstacles (gameLoop rnd s49) =
      [newObstacle rnd (updateEntities s49\<lparr> distanceRef := distanceRef s49 + GAME_SPEED \<rparr>)]"
    by (simp add: gameLoop_obstacles [OF s49(1)] s49(2) s49(3) GAME_SPEED_def updateObstacles_def)
  have e50: "\<exists>obstacle. obstacles (gameLoop rnd s49) = [obstacle] \<and>
      ob_lane obstacle \<in> {0, 1, 2} \<and> ob_y obstacle = 50"
    using newObstacle_lane_y by (simp only: o50) blast
  have g1: "gameState s = Playing \<and> distanceRef (gameLoop rnd s) mod 100 = 0 \<longrightarrow>
      (\<exists>obstacle. obstacles (gameLoop rnd s) = updateObstacles (obstacles s) @ [obstacle] \<and>
         ob_lane obstacle \<in> {0, 1, 2} \<and> ob_y obstacle = 50)"
    using newObstacle_lane_y by (auto simp: gameLoop_obstacles gameLoop_distanceRef)
  have g2: "gameState s = Playing \<and> distanceRef (gameLoop rnd s) mod 100 \<noteq> 0 \<longrightarrow>
      obstacles (gameLoop rnd s) = updateObstacles (obstacles s)"
    by (auto simp: gameLoop_obstacles gameLoop_distanceRef)
  show ?thesis unfolding r50 using q d50 m50 e50 g1 g2 by blast
qed

theorem first_obstacle_spawn_witness:
  "obstacles (run (\<lambda>i. 0) (replicate 10 Frame) (startGame initialEngine)) = [] \<and>
   distanceRef (run (\<lambda>i. 0) (replicate 50 Frame) (startGame initialEngine)) = 300 \<and>
   (\<exists>obstacle.
      obstacles (run (\<lambda>i. 0) (replicate 50 Frame) (startGame initialEngine)) = [obstacle] \<and>
      ob_lane obstacle \<in> {0, 1, 2} \<and> ob_y obstacle = 50) \<and>
   gameState nearSpawn = Playing \<and>
   distanceRef (gameLoop (\<lambda>i. 0) nearSpawn) mod 100 = 0 \<and>
   (\<exists>obstacle.
      obstacles (gameLoop (\<lambda>i. 0) nearSpawn) = updateObstacles (obstacles nearSpawn) @ [obstacle] \<and>
      ob_lane obstacle \<in> {0, 1, 2} \<and> ob_y obstacle = 50)"
proof -
  have n: "(10::nat) < 50" by simp
  have p: "gameState nearSpawn = Playing"
    by (simp add: nearSpawn_def startGame_def)
  have d: "distanceRef (gameLoop (\<lambda>i. 0) nearSpawn) mod 100 = 0"
    by (simp add: gameLoop_distanceRef [OF p]) (simp add: nearSpawn_def GAME_SPEED_def)
  show ?thesis
    using first_obstacle_spawn [of "\<lambda>i. 0" initialEngine nearSpawn] n p d by blast
qed

subsection \<open>C7: collecting is idempotent\<close>

lemma collectCoins_skip_collected:
  "snd (collectCoins rnd r cs g) =
   snd (collectCoins rnd r (filter (\<lambda>c. \<not> coin_collected c) cs) g)"
  by (induction cs arbitrary: g) (simp_all add: split_beta Let_def)

lemma collectPowerUps_skip_collected:
  "snd (collectPowerUps rnd r ps g) =
   snd (collectPowerUps rnd r (filter (\<lambda>u. \<not> pu_collected u) ps) g)"
  by (induction ps arbitrary: g) (simp_all add: split_beta Let_def)

lemma collectCoins_nothing:
  "list_all (\<lambda>c. coin_collected c \<or> \<not> hitsCoin r c) cs \<Longrightarrow> collectCoins rnd r cs g = (cs, g)"
  by (induction cs arbitrary: g) auto

lemma collectPowerUps_nothing:
  "list_all (\<lambda>u. pu_collected u \<or> \<not> hitsPowerUp r u) ps \<Longrightarrow>
   collectPowerUps rnd r ps g = (ps, g)"
  by (induction ps arbitrary: g) auto

lemma collectCoins_done:
  "list_all (\<lambda>c. coin_collected c \<or> \<not> hitsCoin r c) (fst (collectCoins rnd r cs g))"
  by (induction cs arbitrary: g) (simp_all add: split_beta Let_def hitsCoin_def)

lemma collectPowerUps_done:
  "list_all (\<lambda>u. pu_collected u \<or> \<not> hitsPowerUp r u) (fst (collectPowerUps rnd r ps g))"
  by (induction ps arbitrary: g) (simp_all add: split_beta Let_def hitsPowerUp_def)

lemma checkCoinCollections_twice:
  "checkCoinCollections rnd r (checkCoinCollections rnd r g) = checkCoinCollections rnd r g"
  by (simp add: checkCoinCollections_def split_beta collectCoins_nothing [OF collectCoins_done])

lemma checkPowerUpCollections_twice:
  "checkPowerUpCollections rnd r (checkPowerUpCollections rnd r g) =
   checkPowerUpCollections rnd r g"
  by (simp add: checkPowerUpCollections_def split_beta
      collectPowerUps_nothing [OF collectPowerUps_done])

text \<open>
  C7. Testing an entity whose \<open>collected\<close> flag is already true changes
  nothing: the scan returns the coin (the power-up) and the whole state as
  they were, so nothing is added to the coin total, the player is not
  touched and no particle is emitted, whatever the player's box is. The
  state after a scan is the one obtained from the list without its collected
  entities, and a second scan with the same box right after the first is the
  identity.
\<close>

theorem collected_is_idempotent:
  "(coin_collected coin \<longrightarrow> collectCoins rnd r [coin] g = ([coin], g)) \<and>
   (pu_collected powerUp \<longrightarrow> collectPowerUps rnd r [powerUp] g = ([powerUp], g)) \<and>
   snd (collectCoins rnd r cs g) =
     snd (collectCoins rnd r (filter (\<lambda>c. \<not> coin_collected c) cs) g) \<and>
   snd (collectPowerUps rnd r ps g) =
     snd (collectPowerUps rnd r (filter (\<lambda>u. \<not> pu_collected u) ps) g) \<and>
   checkCoinCollections rnd r (checkCoinCollections rnd r g) = checkCoinCollections rnd r g \<and>
   checkPowerUpCollections rnd r (checkPowerUpCollections rnd r g) =
     checkPowerUpCollections rnd r g"
  using collectCoins_skip_collected [of rnd r cs g]
    collectPowerUps_skip_collected [of rnd r ps g]
    checkCoinCollections_twice [of rnd r g] checkPowerUpCollections_twice [of rnd r g]
  by simp

theorem collected_is_idempotent_witness:
  "coin_collected pickedCoin \<and> hitsCoin (playerRect initialPlayer) pickedCoin \<and>
   collectCoins (\<lambda>i. 0) (playerRect initialPlayer) [pickedCoin] initialEngine =
     ([pickedCoin], initialEngine) \<and>
   pu_collected pickedPowerUp \<and> hitsPowerUp (playerRect initialPlayer) pickedPowerUp \<and>
   collectPowerUps (\<lambda>i. 0) (playerRect initialPlayer) [pickedPowerUp] initialEngine =
     ([pickedPowerUp], initialEngine)"
proof -
  have a: "coin_collected pickedCoin" "pu_collected pickedPowerUp"
    by (simp_all add: pickedCoin_def pickedPowerUp_def)
  have b: "hitsCoin (playerRect initialPlayer) pickedCoin"
    by (simp add: hitsCoin_def playerRect_def initialPlayer_def pickedCoin_def consts_defs)
  have c: "hitsPowerUp (playerRect initialPlayer) pickedPowerUp"
    by (simp add: hitsPowerUp_def playerRect_def initialPlayer_def pickedPowerUp_def consts_defs)
  show ?thesis
    using collected_is_idempotent
      [of pickedCoin "\<lambda>i. 0" "playerRect initialPlayer" initialEngine pickedPowerUp "[]" "[]"]
      a b c
    by blast
qed

subsection \<open>C6: a collected power-up overwrites the active slot\<close>

lemma foldl_applyPowerUp_slot:
  "us \<noteq> [] \<Longrightarrow>
   powerUpActive (foldl (\<lambda>p u. applyPowerUp u p) p us) \<and>
   powerUpType (foldl (\<lambda>p u. applyPowerUp u p) p us) = Some (pu_type (last us)) \<and>
   powerUpTimer (foldl (\<lambda>p u. applyPowerUp u p) p us) = 10000"
  by (induction us arbitrary: p rule: rev_induct) (simp_all add: applyPowerUp_def)

lemma spawnEntities_powerUps:
  "powerUps (spawnEntities rnd g) =
     (if (distanceRef g + GAME_SPEED) mod 300 = 0
      then powerUps g @
             [newPowerUp rnd
                (if (distanceRef g + GAME_SPEED) mod 150 = 0
                 then spawnCoin rnd
                        (if (distanceRef g + GAME_SPEED) mod 100 = 0
                         then spawnObstacle rnd (g\<lparr> distanceRef := distanceRef g + GAME_SPEED \<rparr>)
                         else g\<lparr> distanceRef := distanceRef g + GAME_SPEED \<rparr>)
                 else if (distanceRef g + GAME_SPEED) mod 100 = 0
                 then spawnObstacle rnd (g\<lparr> distanceRef := distanceRef g + GAME_SPEED \<rparr>)
                 else g\<lparr> distanceRef := distanceRef g + GAME_SPEED \<rparr>)]
      else powerUps g)"
  by (simp add: spawnEntities_def Let_def spawnPowerUp_def)

text \<open>
  C6. The update that a collected power-up queues sets the slot to the new
  kind with the full duration of 10000 ms, whatever the slot held before. For
  a frame: when the power-up scan runs (playing phase, player not
  invulnerable, no obstacle overlapping) and \<open>hits\<close>, the uncollected
  power-ups overlapping the player's box among the moved and spawned ones, is
  not empty, then after the frame the slot is active, holds the kind of the
  last of them and has 10000 ms left; the old kind and the old remaining time
  do not occur in the result.
\<close>

theorem powerUp_overwrites_slot:
  assumes "gameState s = Playing"
    and "\<not> isInvulnerable (player s)"
    and "\<not> list_ex (hitsObstacle (playerRect (player s))) (obstacles s)"
    and "hits = filter (\<lambda>u. \<not> pu_collected u \<and> hitsPowerUp (playerRect (player s)) u)
                  (powerUps (spawnEntities rnd (updateEntities s)))"
    and "hits \<noteq> []"
  shows "powerUpActive (player (gameLoop rnd s)) \<and>
         powerUpType (player (gameLoop rnd s)) = Some (pu_type (last hits)) \<and>
         powerUpTimer (player (gameLoop rnd s)) = 10000 \<and>
         powerUpType (applyPowerUp powerUp p) = Some (pu_type powerUp) \<and>
         powerUpTimer (applyPowerUp powerUp p) = 10000 \<and>
         powerUpActive (applyPowerUp powerUp p)"
proof -
  have "player (gameLoop rnd s) =
      foldl (\<lambda>p u. applyPowerUp u p) (updatePhysics (player s)) hits"
    using assms(1-4) by (simp add: gameLoop_player)
  then show ?thesis
    using foldl_applyPowerUp_slot [OF assms(5), of "updatePhysics (player s)"]
    by (simp add: applyPowerUp_def)
qed

theorem powerUp_overwrites_slot_witness:
  "powerUpActive (player shielded) \<and> powerUpType (player shielded) = Some Shield \<and>
   powerUpTimer (player shielded) = 5216 \<and>
   powerUpActive (player (gameLoop (\<lambda>i. 0) shielded)) \<and>
   powerUpType (player (gameLoop (\<lambda>i. 0) shielded)) = Some Magnet \<and>
   powerUpTimer (player (gameLoop (\<lambda>i. 0) shielded)) = 10000"
proof -
  define hits where "hits = [\<lparr> pu_id = 1, pu_lane = 1, pu_x = 430, pu_y = 468, pu_type = Magnet,
            pu_collected = False, pu_rotation = 3 / 100, pu_animationFrame = 73 \<rparr>]"
  have a: "gameState shielded = Playing" "\<not> isInvulnerable (player shielded)"
    "\<not> list_ex (hitsObstacle (playerRect (player shielded))) (obstacles shielded)"
    by (simp_all add: shielded_def initialPlayer_def)
  have pl: "playerRect (player shielded) = \<lparr> r_x = 430, r_y = 500, r_width = 40, r_height = 60 \<rparr>"
    by (simp add: shielded_def initialPlayer_def playerRect_def consts_defs)
  have pu: "powerUps (spawnEntities (\<lambda>i. 0) (updateEntities shielded)) = hits"
    by (simp add: spawnEntities_powerUps)
       (simp add: updateEntities_def updatePowerUps_def shielded_def consts_defs hits_def)
  have b: "hits = filter (\<lambda>u. \<not> pu_collected u \<and> hitsPowerUp (playerRect (player shielded)) u)
                  (powerUps (spawnEntities (\<lambda>i. 0) (updateEntities shielded)))"
    by (simp only: pu pl) (simp add: hits_def hitsPowerUp_def consts_defs)
  have c: "hits \<noteq> []" "pu_type (last hits) = Magnet" by (simp_all add: hits_def)
  have d: "powerUpActive (player shielded)" "powerUpType (player shielded) = Some Shield"
    "powerUpTimer (player shielded) = 5216"
    by (simp_all add: shielded_def)
  show ?thesis
    using powerUp_overwrites_slot [OF a b c(1)] c(2) d by simp
qed

section \<open>Invariants of the reachable states\<close>

text \<open>
  The player after a frame is the player after the physics update, possibly
  damaged once, or with the collected power-ups applied in order. The player
  after a key is unchanged, reset, moved by one lane, set jumping or set
  sliding. So a property of the player that holds initially and survives
  these updates and the two timeouts holds in every reachable state.
\<close>

lemma foldl_applyPowerUp_inv:
  assumes "P p" and "\<And>q u. P q \<Longrightarrow> P (applyPowerUp u q)"
  shows "P (foldl (\<lambda>p u. applyPowerUp u p) p us)"
  using assms(1) by (induction us arbitrary: p) (simp_all add: assms(2))

lemma gameLoop_player_cases:
  assumes "gameState s = Playing"
  shows "player (gameLoop rnd s) = updatePhysics (player s) \<or>
         player (gameLoop rnd s) = takeDamage (updatePhysics (player s)) \<or>
         (\<exists>us. player (gameLoop rnd s) =
                 foldl (\<lambda>p u. applyPowerUp u p) (updatePhysics (player s)) us)"
proof (cases "isInvulnerable (player s)")
  case True
  then show ?thesis by (simp add: gameLoop_player [OF assms])
next
  case inv: False
  show ?thesis
  proof (cases "list_ex (hitsObstacle (playerRect (player s))) (obstacles s)")
    case True
    then show ?thesis using inv by (simp add: gameLoop_player [OF assms])
  next
    case False
    then have "player (gameLoop rnd s) =
        foldl (\<lambda>p u. applyPowerUp u p) (updatePhysics (player s))
          (filter (\<lambda>u. \<not> pu_collected u \<and> hitsPowerUp (playerRect (player s)) u)
             (powerUps (spawnEntities rnd (updateEntities s))))"
      using inv by (simp add: gameLoop_player [OF assms])
    then show ?thesis by blast
  qed
qed

lemma gameLoop_player_rel:
  assumes "gameState s = Playing"
    and "P (updatePhysics (player s))"
    and "\<And>q. P q \<Longrightarrow> P (takeDamage q)"
    and "\<And>q u. P q \<Longrightarrow> P (applyPowerUp u q)"
  shows "P (player (gameLoop rnd s))"
proof -
  have "\<And>us. P (foldl (\<lambda>p u. applyPowerUp u p) (updatePhysics (player s)) us)"
    using assms(2) assms(4) by (rule foldl_applyPowerUp_inv)
  moreover have "P (takeDamage (updatePhysics (player s)))"
    using assms(2) by (rule assms(3))
  ultimately show ?thesis
    using gameLoop_player_cases [OF assms(1), of rnd] assms(2) by metis
qed

lemma gameLoop_player_inv:
  assumes "P (player s)"
    and "\<And>q. P q \<Longrightarrow> P (updatePhysics q)"
    and "\<And>q. P q \<Longrightarrow> P (takeDamage q)"
    and "\<And>q u. P q \<Longrightarrow> P (applyPowerUp u q)"
  shows "P (player (gameLoop rnd s))"
proof (cases "gameState s = Playing")
  case True
  then show ?thesis
    using assms(2) [OF assms(1)] assms(3) assms(4) by (rule gameLoop_player_rel)
next
  case False
  then show ?thesis using assms(1) by (simp add: gameLoop_not_playing)
qed

lemma handleKeyPress_idle:
  "gameState g \<noteq> Playing \<Longrightarrow> key \<noteq> '' '' \<Longrightarrow> handleKeyPress key g = g"
  by (cases "gameState g") (simp_all add: handleKeyPress_def)

lemma handleKeyPress_space_idle:
  "gameState g \<noteq> Playing \<Longrightarrow>
   handleKeyPress '' '' g =
     (if gameState g = Paused then g\<lparr> gameState := Playing \<rparr> else startGame g)"
  by (cases "gameState g") (simp_all add: handleKeyPress_def)

lemma handleKeyPress_playing:
  "gameState g = Playing \<Longrightarrow>
   handleKeyPress key g =
     (if key \<in> set leftKeys then
        (if lane (player g) > 0
         then g\<lparr> player := (player g)\<lparr> lane := lane (player g) - 1,
                                      p_x := laneX (lane (player g) - 1) \<rparr> \<rparr>
         else g)
      else if key \<in> set rightKeys then
        (if lane (player g) < 2
         then g\<lparr> player := (player g)\<lparr> lane := lane (player g) + 1,
                                      p_x := laneX (lane (player g) + 1) \<rparr> \<rparr>
         else g)
      else if key \<in> set jumpKeys then
        (if jumpHeight (player g) = 0
         then g\<lparr> player := (player g)\<lparr> isJumping := True, jumpVelocity := 0 \<rparr> \<rparr>
         else g)
      else if key \<in> set slideKeys then
        g\<lparr> player := (player g)\<lparr> isSliding := True \<rparr>, slideTimers := slideTimers g + 1 \<rparr>
      else if key \<in> set pauseKeys then g\<lparr> gameState := Paused \<rparr>
      else g)"
  by (simp add: handleKeyPress_def Let_def togglePause_def)

lemma right_not_left: "key \<in> set rightKeys \<Longrightarrow> key \<notin> set leftKeys"
  by (auto simp: leftKeys_def rightKeys_def)

lemma space_not_move: "'' '' \<notin> set leftKeys \<and> '' '' \<notin> set rightKeys"
  by (simp add: leftKeys_def rightKeys_def)

lemma handleKeyPress_player_cases:
  "player (handleKeyPress key g) = player g \<or>
   player (handleKeyPress key g) = initialPlayer \<or>
   (0 < lane (player g) \<and>
    player (handleKeyPress key g) =
      (player g)\<lparr> lane := lane (player g) - 1, p_x := laneX (lane (player g) - 1) \<rparr>) \<or>
   (lane (player g) < 2 \<and>
    player (handleKeyPress key g) =
      (player g)\<lparr> lane := lane (player g) + 1, p_x := laneX (lane (player g) + 1) \<rparr>) \<or>
   (jumpHeight (player g) = 0 \<and>
    player (handleKeyPress key g) = (player g)\<lparr> isJumping := True, jumpVelocity := 0 \<rparr>) \<or>
   player (handleKeyPress key g) = (player g)\<lparr> isSliding := True \<rparr>"
proof (cases "gameState g = Playing")
  case True
  then show ?thesis by (simp add: handleKeyPress_playing)
next
  case False
  show ?thesis
  proof (cases "key = '' ''")
    case True
    then show ?thesis
      using False by (simp add: handleKeyPress_space_idle startGame_def)
  next
    case k: False
    then show ?thesis using False by (simp add: handleKeyPress_idle)
  qed
qed

lemma handleKeyPress_player_inv:
  assumes "P (player g)"
    and "P initialPlayer"
    and "\<And>q. P q \<Longrightarrow> 0 < lane q \<Longrightarrow> P (q\<lparr> lane := lane q - 1, p_x := laneX (lane q - 1) \<rparr>)"
    and "\<And>q. P q \<Longrightarrow> lane q < 2 \<Longrightarrow> P (q\<lparr> lane := lane q + 1, p_x := laneX (lane q + 1) \<rparr>)"
    and "\<And>q. P q \<Longrightarrow> jumpHeight q = 0 \<Longrightarrow> P (q\<lparr> isJumping := True, jumpVelocity := 0 \<rparr>)"
    and "\<And>q. P q \<Longrightarrow> P (q\<lparr> isSliding := True \<rparr>)"
  shows "P (player (handleKeyPress key g))"
  using handleKeyPress_player_cases [of key g] assms(1) assms(2)
    assms(3) [OF assms(1)] assms(4) [OF assms(1)] assms(5) [OF assms(1)] assms(6) [OF assms(1)]
  by metis

lemma step_player_inv:
  assumes "P (player g)"
    and "P initialPlayer"
    and "\<And>q. P q \<Longrightarrow> P (updatePhysics q)"
    and "\<And>q. P q \<Longrightarrow> P (takeDamage q)"
    and "\<And>q u. P q \<Longrightarrow> P (applyPowerUp u q)"
    and "\<And>q. P q \<Longrightarrow> 0 < lane q \<Longrightarrow> P (q\<lparr> lane := lane q - 1, p_x := laneX (lane q - 1) \<rparr>)"
    and "\<And>q. P q \<Longrightarrow> lane q < 2 \<Longrightarrow> P (q\<lparr> lane := lane q + 1, p_x := laneX (lane q + 1) \<rparr>)"
    and "\<And>q. P q \<Longrightarrow> jumpHeight q = 0 \<Longrightarrow> P (q\<lparr> isJumping := True, jumpVelocity := 0 \<rparr>)"
    and "\<And>q. P q \<Longrightarrow> P (q\<lparr> isSliding := True \<rparr>)"
    and "\<And>q. P q \<Longrightarrow> P (q\<lparr> isSliding := False \<rparr>)"
    and "\<And>q. P q \<Longrightarrow> P (q\<lparr> isInvulnerable := False \<rparr>)"
  shows "P (player (step rnd e g))"
proof (cases e)
  case Frame
  have "P (player (gameLoop rnd g))"
    using assms(1) assms(3) assms(4) assms(5) by (rule gameLoop_player_inv)
  then show ?thesis using Frame by simp
next
  case (KeyDown key)
  have "P (player (handleKeyPress key g))"
    using assms(1) assms(2) assms(6) assms(7) assms(8) assms(9)
    by (rule handleKeyPress_player_inv)
  then show ?thesis using KeyDown by simp
next
  case ClickStart
  then show ?thesis using assms(1) assms(2) by (simp add: startGame_def)
next
  case ClickResume
  then show ?thesis using assms(1) by simp
next
  case ClickMainMenu
  then show ?thesis using assms(1) by (simp add: resetGame_def)
next
  case SlideTimeout
  then show ?thesis using assms(1) assms(10) [OF assms(1)] by simp
next
  case InvulnTimeout
  then show ?thesis using assms(1) assms(11) [OF assms(1)] by simp
qed

lemma reachable_player_inv:
  assumes "reachable rnd g"
    and "P initialPlayer"
    and "\<And>q. P q \<Longrightarrow> P (updatePhysics q)"
    and "\<And>q. P q \<Longrightarrow> P (takeDamage q)"
    and "\<And>q u. P q \<Longrightarrow> P (applyPowerUp u q)"
    and "\<And>q. P q \<Longrightarrow> 0 < lane q \<Longrightarrow> P (q\<lparr> lane := lane q - 1, p_x := laneX (lane q - 1) \<rparr>)"
    and "\<And>q. P q \<Longrightarrow> lane q < 2 \<Longrightarrow> P (q\<lparr> lane := lane q + 1, p_x := laneX (lane q + 1) \<rparr>)"
    and "\<And>q. P q \<Longrightarrow> jumpHeight q = 0 \<Longrightarrow> P (q\<lparr> isJumping := True, jumpVelocity := 0 \<rparr>)"
    and "\<And>q. P q \<Longrightarrow> P (q\<lparr> isSliding := True \<rparr>)"
    and "\<And>q. P q \<Longrightarrow> P (q\<lparr> isSliding := False \<rparr>)"
    and "\<And>q. P q \<Longrightarrow> P (q\<lparr> isInvulnerable := False \<rparr>)"
  shows "P (player g)"
  using assms(1)
proof (induction rule: reachable.induct)
  case reachable_init
  show ?case using assms(2) by (simp add: initialEngine_def)
next
  case (reachable_step g e)
  show ?case
    using reachable_step.IH assms(2-11) by (rule step_player_inv)
qed

subsection \<open>C9: the lane stays in range\<close>

lemma updatePhysics_lane [simp]: "lane (updatePhysics p) = lane p"
  by (simp add: updatePhysics_def Let_def)

lemma reachable_lane:
  assumes "reachable rnd g"
  shows "lane (player g) \<in> {0, 1, 2}"
  using assms
  by (rule reachable_player_inv [where P = "\<lambda>p. lane p \<in> {0, 1, 2}"])
     (auto simp: initialPlayer_def takeDamage_def applyPowerUp_def)

lemma reachable_leftmost: "reachable rnd leftmost"
proof -
  have "reachable rnd (step rnd ClickStart initialEngine)"
    using reachable_init by (rule reachable_step)
  then have "reachable rnd (step rnd (KeyDown ''ArrowLeft'') (step rnd ClickStart initialEngine))"
    by (rule reachable_step)
  then show ?thesis by (simp add: leftmost_def initialEngine_def)
qed

lemma leftmost_facts:
  "gameState leftmost = Playing" "lane (player leftmost) = 0" "p_x (player leftmost) = 130"
  by (simp_all add: leftmost_def handleKeyPress_def startGame_def initialEngine_def
      initialPlayer_def leftKeys_def laneX_def consts_defs Let_def)

lemma handleKeyPress_basic_lane:
  "b_lane (handleKeyPress_basic st key p) =
     (if st = Playing \<and> key = ''ArrowLeft'' \<and> 0 < b_lane p then b_lane p - 1
      else if st = Playing \<and> key = ''ArrowRight'' \<and> b_lane p < 2 then b_lane p + 1
      else b_lane p)"
  by (simp add: handleKeyPress_basic_def)

lemma updatePhysics_basic_lane [simp]: "b_lane (updatePhysics_basic p) = b_lane p"
  by (simp add: updatePhysics_basic_def Let_def)

lemma players_basic_lane: "players_basic p \<Longrightarrow> b_lane p \<in> {0, 1, 2}"
proof (induction rule: players_basic.induct)
  case basic_init
  show ?case by (simp add: initialPlayer_basic_def)
next
  case (basic_frame p)
  then show ?case by simp
next
  case (basic_key p st key)
  then have "b_lane p = 0 \<or> b_lane p = 1 \<or> b_lane p = 2" by simp
  then show ?case by (auto simp: handleKeyPress_basic_lane)
next
  case (basic_slide_timeout p)
  then show ?case by simp
qed

lemma handleKeyPress_basic_edges:
  "(b_lane p = 0 \<longrightarrow> handleKeyPress_basic st ''ArrowLeft'' p = p) \<and>
   (b_lane p = 2 \<longrightarrow> handleKeyPress_basic st ''ArrowRight'' p = p)"
  by (simp add: handleKeyPress_basic_def)

lemma handleKeyPress_basic_moves:
  assumes "b_lane p \<in> {0, 1, 2}"
  shows "(b_lane p \<noteq> 0 \<longrightarrow>
          handleKeyPress_basic Playing ''ArrowLeft'' p =
            p\<lparr> b_lane := b_lane p - 1,
                b_x := of_int (b_lane p - 1) * LANE_WIDTH_basic + LANE_WIDTH_basic / 2
                       - PLAYER_WIDTH / 2 \<rparr>) \<and>
         (b_lane p \<noteq> 2 \<longrightarrow>
          handleKeyPress_basic Playing ''ArrowRight'' p =
            p\<lparr> b_lane := b_lane p + 1,
                b_x := of_int (b_lane p + 1) * LANE_WIDTH_basic + LANE_WIDTH_basic / 2
                       - PLAYER_WIDTH / 2 \<rparr>)"
proof -
  have l: "0 < b_lane p" if "b_lane p \<noteq> 0" using assms that by auto
  have r: "b_lane p < 2" if "b_lane p \<noteq> 2" using assms that by auto
  show ?thesis using l r by (simp add: handleKeyPress_basic_def)
qed

lemma players_basic_leftmost: "players_basic leftmost_basic"
  unfolding leftmost_basic_def using basic_init by (rule basic_key)

lemma leftmost_basic_lane: "b_lane leftmost_basic = 0"
  by (simp add: leftmost_basic_def handleKeyPress_basic_def initialPlayer_basic_def)

text \<open>
  C9. In every reachable state the player's lane is 0, 1 or 2. A left key
  (\<open>ArrowLeft\<close>, \<open>a\<close>, \<open>A\<close>) at lane 0 and a right key (\<open>ArrowRight\<close>,
  \<open>d\<close>, \<open>D\<close>) at lane 2 leave the whole state, and so the player,
  unchanged. In the playing phase, the only phase that interprets these keys,
  every other left or right key moves the player by exactly one lane and sets
  \<open>x\<close> to \<open>lane * LANE_WIDTH + LANE_WIDTH / 2 - PLAYER_WIDTH / 2\<close> for
  the new lane, changing nothing else of the player. The same holds of the
  basic engine, for its keys \<open>ArrowLeft\<close> and \<open>ArrowRight\<close> and its lane
  width.
\<close>

theorem lane_in_range:
  assumes "reachable rnd g" and "players_basic q"
  shows "lane (player g) \<in> {0, 1, 2} \<and>
    (key \<in> set leftKeys \<and> lane (player g) = 0 \<longrightarrow> handleKeyPress key g = g) \<and>
    (key \<in> set rightKeys \<and> lane (player g) = 2 \<longrightarrow> handleKeyPress key g = g) \<and>
    (gameState g = Playing \<and> key \<in> set leftKeys \<and> lane (player g) \<noteq> 0 \<longrightarrow>
       player (handleKeyPress key g) =
         (player g)\<lparr> lane := lane (player g) - 1,
                      p_x := of_int (lane (player g) - 1) * LANE_WIDTH + LANE_WIDTH / 2
                             - PLAYER_WIDTH / 2 \<rparr>) \<and>
    (gameState g = Playing \<and> key \<in> set rightKeys \<and> lane (player g) \<noteq> 2 \<longrightarrow>
       player (handleKeyPress key g) =
         (player g)\<lparr> lane := lane (player g) + 1,
                      p_x := of_int (lane (player g) + 1) * LANE_WIDTH + LANE_WIDTH / 2
                             - PLAYER_WIDTH / 2 \<rparr>) \<and>
    b_lane q \<in> {0, 1, 2} \<and>
    (b_lane q = 0 \<longrightarrow> handleKeyPress_basic st ''ArrowLeft'' q = q) \<and>
    (b_lane q = 2 \<longrightarrow> handleKeyPress_basic st ''ArrowRight'' q = q) \<and>
    (b_lane q \<noteq> 0 \<longrightarrow>
       handleKeyPress_basic Playing ''ArrowLeft'' q =
         q\<lparr> b_lane := b_lane q - 1,
             b_x := of_int (b_lane q - 1) * LANE_WIDTH_basic + LANE_WIDTH_basic / 2
                    - PLAYER_WIDTH / 2 \<rparr>) \<and>
    (b_lane q \<noteq> 2 \<longrightarrow>
       handleKeyPress_basic Playing ''ArrowRight'' q =
         q\<lparr> b_lane := b_lane q + 1,
             b_x := of_int (b_lane q + 1) * LANE_WIDTH_basic + LANE_WIDTH_basic / 2
                    - PLAYER_WIDTH / 2 \<rparr>)"
proof -
  have r: "lane (player g) \<in> {0, 1, 2}" using assms(1) by (rule reachable_lane)
  have l0: "handleKeyPress key g = g" if "key \<in> set leftKeys" "lane (player g) = 0"
  proof (cases "gameState g = Playing")
    case True
    then show ?thesis using that by (simp add: handleKeyPress_playing)
  next
    case False
    moreover have "key \<noteq> '' ''" using that(1) space_not_move by blast
    ultimately show ?thesis by (rule handleKeyPress_idle)
  qed
  have r2: "handleKeyPress key g = g" if "key \<in> set rightKeys" "lane (player g) = 2"
  proof (cases "gameState g = Playing")
    case True
    then show ?thesis using that right_not_left [OF that(1)] by (simp add: handleKeyPress_playing)
  next
    case False
    moreover have "key \<noteq> '' ''" using that(1) space_not_move by blast
    ultimately show ?thesis by (rule handleKeyPress_idle)
  qed
  have l1: "player (handleKeyPress key g) =
         (player g)\<lparr> lane := lane (player g) - 1,
                      p_x := of_int (lane (player g) - 1) * LANE_WIDTH + LANE_WIDTH / 2
                             - PLAYER_WIDTH / 2 \<rparr>"
    if "gameState g = Playing" "key \<in> set leftKeys" "lane (player g) \<noteq> 0"
    using that r by (auto simp: handleKeyPress_playing laneX_def)
  have r1: "player (handleKeyPress key g) =
         (player g)\<lparr> lane := lane (player g) + 1,
                      p_x := of_int (lane (player g) + 1) * LANE_WIDTH + LANE_WIDTH / 2
                             - PLAYER_WIDTH / 2 \<rparr>"
    if "gameState g = Playing" "key \<in> set rightKeys" "lane (player g) \<noteq> 2"
    using that r right_not_left [OF that(2)] by (auto simp: handleKeyPress_playing laneX_def)
  have b: "b_lane q \<in> {0, 1, 2}" using assms(2) by (rule players_basic_lane)
  show ?thesis
    using r l0 r2 l1 r1 b handleKeyPress_basic_edges [of q st] handleKeyPress_basic_moves [OF b]
    by blast
qed

theorem lane_in_range_witness:
  "lane (player leftmost) = 0 \<and> ''a'' \<in> set leftKeys \<and>
   handleKeyPress ''a'' leftmost = leftmost \<and>
   gameState leftmost = Playing \<and> ''d'' \<in> set rightKeys \<and>
   lane (player (handleKeyPress ''d'' leftmost)) = 1 \<and>
   p_x (player (handleKeyPress ''d'' leftmost)) = 430 \<and>
   b_lane leftmost_basic = 0 \<and>
   handleKeyPress_basic Playing ''ArrowLeft'' leftmost_basic = leftmost_basic \<and>
   b_lane (handleKeyPress_basic Playing ''ArrowRight'' leftmost_basic) = 1 \<and>
   b_x (handleKeyPress_basic Playing ''ArrowRight'' leftmost_basic) = 380"
proof -
  note inst = lane_in_range [OF reachable_leftmost [of "\<lambda>i. 0"] players_basic_leftmost,
      where st = Playing]
  have k: "''a'' \<in> set leftKeys" "''d'' \<in> set rightKeys"
    by (simp_all add: leftKeys_def rightKeys_def)
  have "handleKeyPress ''a'' leftmost = leftmost"
    using inst [where key = "''a''"] k(1) leftmost_facts(2) by blast
  moreover have "player (handleKeyPress ''d'' leftmost) =
      (player leftmost)\<lparr> lane := lane (player leftmost) + 1,
                          p_x := of_int (lane (player leftmost) + 1) * LANE_WIDTH + LANE_WIDTH / 2
                                 - PLAYER_WIDTH / 2 \<rparr>"
    using inst [where key = "''d''"] k(2) leftmost_facts(1,2) by simp
  moreover have "handleKeyPress_basic Playing ''ArrowLeft'' leftmost_basic = leftmost_basic"
    using inst [where key = "''a''"] leftmost_basic_lane by blast
  moreover have "handleKeyPress_basic Playing ''ArrowRight'' leftmost_basic =
      leftmost_basic\<lparr> b_lane := b_lane leftmost_basic + 1,
          b_x := of_int (b_lane leftmost_basic + 1) * LANE_WIDTH_basic + LANE_WIDTH_basic / 2
                 - PLAYER_WIDTH / 2 \<rparr>"
    using inst [where key = "''a''"] leftmost_basic_lane by simp
  ultimately show ?thesis
    using k leftmost_facts leftmost_basic_lane
    by (simp add: consts_defs LANE_WIDTH_basic_def GAME_WIDTH_basic_def)
qed

subsection \<open>C10: the health stays in range\<close>

lemma updatePhysics_maxHealth [simp]: "maxHealth (updatePhysics p) = maxHealth p"
  by (simp add: updatePhysics_def Let_def)

lemma reachable_health:
  assumes "reachable rnd g"
  shows "0 \<le> health (player g) \<and> health (player g) \<le> maxHealth (player g)"
  using assms
  by (rule reachable_player_inv [where P = "\<lambda>p. 0 \<le> health p \<and> health p \<le> maxHealth p"])
     (auto simp: initialPlayer_def takeDamage_def applyPowerUp_def)

text \<open>
  C10. In every reachable state the player's health lies between 0 and
  \<open>maxHealth\<close>. Obstacle damage is \<open>max 0 (health - 25)\<close>, never negative;
  a collected power-up of kind \<open>health\<close> gives
  \<open>min maxHealth (health + 25)\<close>, never above \<open>maxHealth\<close>, and a
  power-up of another kind leaves the health as it is.
\<close>

theorem health_in_range:
  assumes "reachable rnd g"
  shows "0 \<le> health (player g) \<and> health (player g) \<le> maxHealth (player g) \<and>
    0 \<le> health (takeDamage p) \<and>
    health (takeDamage p) = max 0 (health p - 25) \<and>
    (health p \<le> maxHealth p \<longrightarrow>
       health (applyPowerUp powerUp p) \<le> maxHealth (applyPowerUp powerUp p)) \<and>
    (pu_type powerUp = Health \<longrightarrow>
       health (applyPowerUp powerUp p) = min (maxHealth p) (health p + 25))"
  using reachable_health [OF assms]
  by (simp add: takeDamage_def applyPowerUp_def)

theorem health_in_range_witness:
  "health (player leftmost) = 100 \<and> maxHealth (player leftmost) = 100 \<and>
   health bruised = 90 \<and> maxHealth bruised = 100 \<and> pu_type healthPack = Health \<and>
   health (applyPowerUp healthPack bruised) = 100 \<and>
   health (takeDamage (takeDamage (takeDamage (takeDamage bruised)))) = 0"
proof -
  have a: "health bruised = 90" "maxHealth bruised = 100" "pu_type healthPack = Health"
    by (simp_all add: bruised_def healthPack_def initialPlayer_def)
  have b: "health (player leftmost) = 100" "maxHealth (player leftmost) = 100"
    by (simp_all add: leftmost_def handleKeyPress_def startGame_def initialEngine_def
        initialPlayer_def leftKeys_def Let_def)
  have c: "health (takeDamage (takeDamage (takeDamage (takeDamage bruised)))) = 0"
    using health_in_range [OF reachable_leftmost [of "\<lambda>i. 0"],
        where p = "takeDamage (takeDamage (takeDamage bruised))" and powerUp = healthPack]
    by (simp add: takeDamage_def bruised_def initialPlayer_def)
  have d: "health (applyPowerUp healthPack bruised) = 100"
    using health_in_range [OF reachable_leftmost [of "\<lambda>i. 0"],
        where p = bruised and powerUp = healthPack] a
    by simp
  show ?thesis using a b c d by simp
qed

subsection \<open>C5: a shield absorbs the hit\<close>

lemma length_newParticles [simp]: "length (newParticles rnd x y color n idRef calls) = n"
  by (induction n arbitrary: idRef calls) simp_all

lemma updatePhysics_isInvulnerable [simp]:
  "isInvulnerable (updatePhysics p) = isInvulnerable p"
  by (simp add: updatePhysics_def Let_def)

lemma updatePhysics_shield:
  "powerUpActive (updatePhysics p) \<Longrightarrow>
   powerUpActive p \<and> powerUpType (updatePhysics p) = powerUpType p"
  by (simp add: updatePhysics_def Let_def split: if_splits)

lemma foldl_applyPowerUp_isInvulnerable [simp]:
  "isInvulnerable (foldl (\<lambda>p u. applyPowerUp u p) p us) = isInvulnerable p"
  by (rule foldl_applyPowerUp_inv [where P = "\<lambda>q. isInvulnerable q = isInvulnerable p"])
     (simp_all add: applyPowerUp_def)

lemma gameLoop_shieldExcludes:
  assumes "shieldExcludesInvulnerable (player s)"
  shows "shieldExcludesInvulnerable (player (gameLoop rnd s))"
proof (cases "gameState s = Playing")
  case False
  then show ?thesis using assms by (simp add: gameLoop_not_playing)
next
  case True
  note pl = gameLoop_player [OF True, of rnd]
  show ?thesis
  proof (cases "isInvulnerable (player s)")
    case inv: True
    then have "player (gameLoop rnd s) = updatePhysics (player s)" by (simp add: pl)
    then show ?thesis
      using assms inv updatePhysics_shield [of "player s"]
      by (auto simp: shieldExcludesInvulnerable_def)
  next
    case ninv: False
    show ?thesis
    proof (cases "list_ex (hitsObstacle (playerRect (player s))) (obstacles s)")
      case nohit: False
      then show ?thesis using ninv by (simp add: pl shieldExcludesInvulnerable_def)
    next
      case hit: True
      show ?thesis
      proof (cases "powerUpActive (player s) \<and> powerUpType (player s) = Some Shield")
        case True
        then have "player (gameLoop rnd s) = updatePhysics (player s)"
          using ninv hit by (simp add: pl)
        then show ?thesis using ninv by (simp add: shieldExcludesInvulnerable_def)
      next
        case False
        then have "player (gameLoop rnd s) = takeDamage (updatePhysics (player s))"
          using ninv hit by (auto simp: pl)
        then show ?thesis
          using False updatePhysics_shield [of "player s"]
          by (auto simp: shieldExcludesInvulnerable_def takeDamage_def)
      qed
    qed
  qed
qed

lemma handleKeyPress_shieldExcludes:
  assumes "shieldExcludesInvulnerable (player g)"
  shows "shieldExcludesInvulnerable (player (handleKeyPress key g))"
  using assms
  by (rule handleKeyPress_player_inv)
     (simp_all add: shieldExcludesInvulnerable_def initialPlayer_def)

lemma reachable_shieldExcludes:
  "reachable rnd g \<Longrightarrow> shieldExcludesInvulnerable (player g)"
proof (induction rule: reachable.induct)
  case reachable_init
  show ?case by (simp add: shieldExcludesInvulnerable_def initialEngine_def initialPlayer_def)
next
  case (reachable_step g e)
  then show ?case
    using gameLoop_shieldExcludes [of g rnd] handleKeyPress_shieldExcludes [of g]
    by (cases e)
       (auto simp: shieldExcludesInvulnerable_def startGame_def initialPlayer_def resetGame_def)
qed

text \<open>
  C5. In a frame of the playing phase in which the player's active power-up
  is the shield and the player's box overlaps some obstacle, the health is
  not reduced (the player changes by the physics update only, the phase stays
  \<open>playing\<close>) and exactly one burst of 10 particles is emitted at the
  player, however many obstacles overlap: the loop returns at the first one.
  This holds in every reachable state, where an active shield excludes
  invulnerability, and in any state whose player is not invulnerable.
\<close>

theorem shield_absorbs_hit:
  assumes "reachable rnd s \<or> \<not> isInvulnerable (player s)"
    and "gameState s = Playing"
    and "powerUpActive (player s)"
    and "powerUpType (player s) = Some Shield"
    and "list_ex (hitsObstacle (playerRect (player s))) (obstacles s)"
  shows "health (player (gameLoop rnd s)) = health (player s) \<and>
    player (gameLoop rnd s) = updatePhysics (player s) \<and>
    gameState (gameLoop rnd s) = Playing \<and>
    particles (gameLoop rnd s) =
      updateParticles (particles s) @
      newParticles rnd (p_x (player s) + PLAYER_WIDTH / 2) (p_y (player s))
        ''hsl(195, 100%, 55%)'' 10 (particleIdRef s)
        (randCalls (spawnEntities rnd (updateEntities s))) \<and>
    length (particles (gameLoop rnd s)) = length (updateParticles (particles s)) + 10 \<and>
    particleIdRef (gameLoop rnd s) = particleIdRef s + 10"
proof -
  have ninv: "\<not> isInvulnerable (player s)"
    using assms(1,3,4) reachable_shieldExcludes [of rnd s]
    by (auto simp: shieldExcludesInvulnerable_def)
  have p: "player (gameLoop rnd s) = updatePhysics (player s)"
    using ninv assms by (simp add: gameLoop_player)
  have st: "gameState (gameLoop rnd s) = Playing"
    using ninv assms by (simp add: gameLoop_playing checkCollisions_gameState)
  have out: "gameLoop rnd s =
      createParticle rnd (p_x (player s) + PLAYER_WIDTH / 2) (p_y (player s))
        ''hsl(195, 100%, 55%)'' 10 (updateScore s (spawnEntities rnd (updateEntities s)))"
    using ninv assms by (simp add: gameLoop_playing checkCollisions_eq obstacleOutcome_def)
  have pt: "particles (gameLoop rnd s) =
      updateParticles (particles s) @
      newParticles rnd (p_x (player s) + PLAYER_WIDTH / 2) (p_y (player s))
        ''hsl(195, 100%, 55%)'' 10 (particleIdRef s)
        (randCalls (spawnEntities rnd (updateEntities s)))"
    by (simp add: out createParticle_def)
  have pid: "particleIdRef (gameLoop rnd s) = particleIdRef s + 10"
    by (simp add: out createParticle_def)
  show ?thesis using p st pt pid by simp
qed

theorem shield_absorbs_hit_witness:
  "gameState shieldedHit = Playing \<and> powerUpActive (player shieldedHit) \<and>
   powerUpType (player shieldedHit) = Some Shield \<and>
   list_ex (hitsObstacle (playerRect (player shieldedHit))) (obstacles shieldedHit) \<and>
   length (filter (hitsObstacle (playerRect (player shieldedHit))) (obstacles shieldedHit)) = 2 \<and>
   health (player shieldedHit) = 75 \<and>
   health (player (gameLoop (\<lambda>i. 0) shieldedHit)) = 75 \<and>
   length (particles (gameLoop (\<lambda>i. 0) shieldedHit)) = 10 \<and>
   particleIdRef (gameLoop (\<lambda>i. 0) shieldedHit) = 22"
proof -
  have a: "\<not> isInvulnerable (player shieldedHit)" "gameState shieldedHit = Playing"
    "powerUpActive (player shieldedHit)" "powerUpType (player shieldedHit) = Some Shield"
    "health (player shieldedHit) = 75" "particleIdRef shieldedHit = 12"
    "particles shieldedHit = []"
    by (simp_all add: shieldedHit_def initialPlayer_def)
  have pl: "playerRect (player shieldedHit) =
      \<lparr> r_x = 430, r_y = 500, r_width = 40, r_height = 60 \<rparr>"
    by (simp add: shieldedHit_def initialPlayer_def playerRect_def consts_defs)
  have b: "list_ex (hitsObstacle (playerRect (player shieldedHit))) (obstacles shieldedHit)"
    "length (filter (hitsObstacle (playerRect (player shieldedHit))) (obstacles shieldedHit)) = 2"
    by (simp_all only: pl) (simp_all add: shieldedHit_def hitsObstacle_def)
  have c: "reachable (\<lambda>i. 0) shieldedHit \<or> \<not> isInvulnerable (player shieldedHit)"
    using a(1) by blast
  show ?thesis
    using shield_absorbs_hit [OF c a(2) a(3) a(4) b(1)] a b
    by (simp add: updateParticles_def)
qed

subsection \<open>C2: the jump arc\<close>

text \<open>
  What holds of the jump in every reachable state: the height lies between 0
  and 180, and at height 0 the velocity is 0.
\<close>

lemma updatePhysics_jumpArc: "jumpArc p \<Longrightarrow> jumpArc (updatePhysics p)"
  by (auto simp: jumpArc_def updatePhysics_def consts_defs Let_def split: if_splits)

lemma reachable_jumpArc:
  assumes "reachable rnd g"
  shows "jumpArc (player g)"
  using assms
proof (rule reachable_player_inv [where P = jumpArc])
  show "jumpArc initialPlayer" by (simp add: jumpArc_def initialPlayer_def)
  show "\<And>q. jumpArc q \<Longrightarrow> jumpArc (updatePhysics q)" by (rule updatePhysics_jumpArc)
qed (simp_all add: jumpArc_def takeDamage_def applyPowerUp_def)

lemma jump_arc_bounds:
  assumes "reachable rnd g"
  shows "0 \<le> jumpHeight (player g) \<and> jumpHeight (player g) \<le> 180 \<and>
         (jumpHeight (player g) = 0 \<longrightarrow> jumpVelocity (player g) = 0)"
  using reachable_jumpArc [OF assms] by (auto simp: jumpArc_def split: if_splits)

text \<open>
  C2. The claim bounds \<open>jumpHeight\<close> by \<open>MAX_JUMP_HEIGHT = 120\<close>. The
  source stops the rise when the height has reached \<open>MAX_JUMP_HEIGHT\<close> but
  does not clamp the height: in a fresh session, a jump key followed by three
  frames gives the heights 18, 54, 108 and the fourth frame adds the velocity
  72, so the height is 180.
\<close>

theorem jump_overshoots:
  "jumpHeight (player (run (\<lambda>i. 0) [KeyDown '' '', Frame, Frame, Frame]
     (startGame initialEngine))) = 108 \<and>
   jumpHeight (player (run (\<lambda>i. 0) [KeyDown '' '', Frame, Frame, Frame, Frame]
     (startGame initialEngine))) = 180 \<and>
   MAX_JUMP_HEIGHT = 120"
  by code_simp

subsection \<open>C1: collection while invulnerable\<close>

text \<open>
  A frame of the playing phase with an invulnerable player is the frame
  without \<open>checkCollisions\<close>: nothing is added to the coin total, the player
  changes by the physics update only, no particle is emitted and no entity
  changes its \<open>collected\<close> flag.
\<close>

lemma invulnerable_frame:
  assumes "gameState s = Playing" and "isInvulnerable (player s)"
  shows "gameLoop rnd s = updateScore s (spawnEntities rnd (updateEntities s))"
  using assms by (simp add: gameLoop_playing checkCollisions_eq)

lemma invulnerable_frame_collects_nothing:
  assumes "gameState s = Playing" and "isInvulnerable (player s)"
  shows "coins (gameLoop rnd s) = coins s \<and>
         player (gameLoop rnd s) = updatePhysics (player s) \<and>
         particles (gameLoop rnd s) = updateParticles (particles s) \<and>
         gameCoins (gameLoop rnd s) = gameCoins (spawnEntities rnd (updateEntities s)) \<and>
         powerUps (gameLoop rnd s) = powerUps (spawnEntities rnd (updateEntities s))"
  by (simp add: invulnerable_frame [OF assms])

text \<open>
  C1. The claim says that coins and power-ups are collected whether or not
  the player is invulnerable. \<open>checkCollisions\<close> starts with
  \<open>if (player.isInvulnerable) return\<close>, before the coin scan and the
  power-up scan. In \<open>invulnerableAtCoin\<close> the frame leaves the overlapping
  coin and power-up uncollected, the coin total, the health and the power-up
  slot as they were, and emits no particle; in \<open>vulnerableAtCoin\<close> the same
  frame collects both, adds 5 to the coin total, restores the health to 100
  and emits 8 + 12 particles.
\<close>

theorem invulnerable_skips_collection:
  "gameState invulnerableAtCoin = Playing \<and>
   isInvulnerable (player invulnerableAtCoin) \<and>
   list_all (\<lambda>c. \<not> coin_collected c \<and> hitsCoin (playerRect (player invulnerableAtCoin)) c)
     (gameCoins (gameLoop (\<lambda>i. 0) invulnerableAtCoin)) \<and>
   length (gameCoins (gameLoop (\<lambda>i. 0) invulnerableAtCoin)) = 1 \<and>
   coins (gameLoop (\<lambda>i. 0) invulnerableAtCoin) = coins invulnerableAtCoin \<and>
   list_all (\<lambda>u. \<not> pu_collected u \<and> hitsPowerUp (playerRect (player invulnerableAtCoin)) u)
     (powerUps (gameLoop (\<lambda>i. 0) invulnerableAtCoin)) \<and>
   length (powerUps (gameLoop (\<lambda>i. 0) invulnerableAtCoin)) = 1 \<and>
   \<not> powerUpActive (player (gameLoop (\<lambda>i. 0) invulnerableAtCoin)) \<and>
   health (player (gameLoop (\<lambda>i. 0) invulnerableAtCoin)) = 75 \<and>
   particles (gameLoop (\<lambda>i. 0) invulnerableAtCoin) = [] \<and>
   list_all coin_collected (gameCoins (gameLoop (\<lambda>i. 0) vulnerableAtCoin)) \<and>
   coins (gameLoop (\<lambda>i. 0) vulnerableAtCoin) = coins vulnerableAtCoin + 5 \<and>
   list_all pu_collected (powerUps (gameLoop (\<lambda>i. 0) vulnerableAtCoin)) \<and>
   health (player (gameLoop (\<lambda>i. 0) vulnerableAtCoin)) = 100 \<and>
   length (particles (gameLoop (\<lambda>i. 0) vulnerableAtCoin)) = 20"
  by code_simp

end
